theory Spec2Isabelle
  imports Main
begin

section \<open>Values, errors and the collaborator\<close>

text \<open>
  The client is the single file \<^verbatim>\<open>frontend/src/App.js\<close>. Every piece of state it mutates
  (React state cells, \<^verbatim>\<open>localStorage\<close>) is passed explicitly; every operation
  returns the state afterwards together with the requests it sent, in order. URLs are written
  relative to the constant \<^verbatim>\<open>API\<close>.

  A JSON object whose properties the client reads as strings is an association list;
  reading a property that is absent gives \<^verbatim>\<open>undefined\<close>, here \<open>None\<close>.
\<close>

type_synonym obj = "(string \<times> string) list"

definition property :: "obj \<Rightarrow> string \<Rightarrow> string option" where
  "property d k = map_of d k"

text \<open>String conversion of a possibly undefined string, as a template literal,
  string concatenation or \<^verbatim>\<open>localStorage.setItem\<close> performs it.\<close>

definition str_undefined :: "string option \<Rightarrow> string" where
  "str_undefined v = (case v of None \<Rightarrow> ''undefined'' | Some s \<Rightarrow> s)"

text \<open>String conversion of a possibly null string.\<close>

definition str_null :: "string option \<Rightarrow> string" where
  "str_null v = (case v of None \<Rightarrow> ''null'' | Some s \<Rightarrow> s)"

text \<open>A property of a JSON object that may be absent, null or a string, and its string
  conversion in a template literal.\<close>

datatype jstring = Undefined | Null | Str string

fun str_jstring :: "jstring \<Rightarrow> string" where
  "str_jstring Undefined = ''undefined''"
| "str_jstring Null = ''null''"
| "str_jstring (Str s) = s"

text \<open>
  What a rejected promise carries: an axios error, of which the client reads
  \<^verbatim>\<open>error.response?.data?.detail\<close> and \<^verbatim>\<open>error.message\<close>, or a \<^verbatim>\<open>TypeError\<close>
  raised by the client's own code.
\<close>

datatype js_error = AxiosError "string option" string | TypeError string

fun detail :: "js_error \<Rightarrow> string option" where
  "detail (AxiosError d m) = d"
| "detail (TypeError m) = None"

fun message :: "js_error \<Rightarrow> string" where
  "message (AxiosError d m) = m"
| "message (TypeError m) = m"

text \<open>\<^verbatim>\<open>error.response?.data?.detail || error.message\<close>: the empty string is falsy.\<close>

definition error_text :: "js_error \<Rightarrow> string" where
  "error_text e = (case detail e of
       Some d \<Rightarrow> (if d \<noteq> [] then d else message e)
     | None \<Rightarrow> message e)"

text \<open>A request: method, path below \<^verbatim>\<open>API\<close>, Authorization header, and the form
  fields of a POST or the query parameters of a GET, in the order they were appended.\<close>

datatype request = Request string string "string option" "(string \<times> string) list"

text \<open>A line written by \<^verbatim>\<open>console.error\<close>: the label and the error object.\<close>

type_synonym console = "(string \<times> js_error) list"

record paper =
  paper_id :: string
  title :: string
  authors :: "string list"
  institution :: string
  category :: string
  abstract_text :: string
  key_words :: "string list"
  word_count :: int
  file_url :: string
  submission_date :: string
  doi :: jstring

record application =
  app_id :: string
  app_name :: string
  app_email :: string
  app_institution :: string
  specialization :: "string list"
  experience :: string
  cv_url :: string
  certificates_url :: string

text \<open>
  The HTTP API is not part of the client; each endpoint the client calls is a field of
  \<open>server\<close>, answering with the response's \<^verbatim>\<open>data\<close> or with the error axios throws.
\<close>

record server =
  post_token :: "string \<Rightarrow> string \<Rightarrow> js_error + obj"
  get_current_user :: "string \<Rightarrow> js_error + obj"
  post_register :: "(string \<times> string) list \<Rightarrow> js_error + obj"
  post_submit_paper :: "(string \<times> string) list \<Rightarrow> js_error + obj"
  get_papers :: "(string \<times> string) list \<Rightarrow> string option \<Rightarrow> js_error + paper list"
  get_applications :: "string \<Rightarrow> js_error + application list"
  post_review :: "string \<Rightarrow> string \<Rightarrow> string \<Rightarrow> string \<Rightarrow> js_error + unit"

text \<open>
  What the client takes from the browser and the language, and the program text does not
  fix: which strings the browser accepts as an e-mail address; the double nearest to a decimal
  \<open>m \<times> 10\<^sup>e\<close>, itself written as a decimal, or nothing when the decimal is beyond the
  range of doubles; the text that string conversion gives the double nearest to an integer
  beyond the safe integers; the offset of local time from UTC in milliseconds, at a UTC
  instant (\<open>True\<close>) or at a local time (\<open>False\<close>); and the time value that \<^verbatim>\<open>Date.parse\<close>
  gives a string outside the date-time string format of the language, if any.
\<close>

record browser =
  email_ok :: "string \<Rightarrow> bool"
  round_double :: "int \<times> int \<Rightarrow> (int \<times> int) option"
  number_text :: "int \<Rightarrow> string"
  LocalTZA :: "int \<Rightarrow> bool \<Rightarrow> int"
  legacy_parse :: "string \<Rightarrow> int option"

section \<open>AuthProvider\<close>

text \<open>
  \<open>user\<close> and \<open>loading\<close> are the provider's state cells; \<open>token\<close> is the
  \<^verbatim>\<open>localStorage\<close> entry \<^verbatim>\<open>'token'\<close>.
\<close>

record session =
  user :: "obj option"
  loading :: bool
  token :: "string option"

definition initial_session :: "string option \<Rightarrow> session" where
  "initial_session stored = \<lparr>user = None, loading = True, token = stored\<rparr>"

definition bearer :: "string \<Rightarrow> string" where
  "bearer t = ''Bearer '' @ t"

definition fetchCurrentUser :: "server \<Rightarrow> string \<Rightarrow> session \<Rightarrow> session \<times> request list" where
  "fetchCurrentUser srv t st =
     (case get_current_user srv (bearer t) of
        Inr d \<Rightarrow> st\<lparr>user := Some d, loading := False\<rparr>
      | Inl e \<Rightarrow> st\<lparr>token := None, loading := False\<rparr>,
      [Request ''GET'' ''/current_user'' (Some (bearer t)) []])"

text \<open>The mount effect of the provider; an empty stored token is falsy.\<close>

definition restore :: "server \<Rightarrow> session \<Rightarrow> session \<times> request list" where
  "restore srv st =
     (case token st of
        Some t \<Rightarrow> (if t \<noteq> [] then fetchCurrentUser srv t st else (st\<lparr>loading := False\<rparr>, []))
      | None \<Rightarrow> (st\<lparr>loading := False\<rparr>, []))"

definition login ::
  "server \<Rightarrow> string \<Rightarrow> string \<Rightarrow> session \<Rightarrow> (js_error + obj) \<times> session \<times> request list" where
  "login srv email password st =
     (let rq = Request ''POST'' ''/token'' None [(''username'', email), (''password'', password)] in
      case post_token srv email password of
        Inl e \<Rightarrow> (Inl e, st, [rq])
      | Inr d \<Rightarrow>
          (let t = str_undefined (property d ''access_token'');
               (st', rqs) = fetchCurrentUser srv t (st\<lparr>token := Some t\<rparr>)
           in (Inr d, st', rq # rqs)))"

definition logout :: "session \<Rightarrow> session" where
  "logout st = st\<lparr>token := None, user := None\<rparr>"

definition register ::
  "server \<Rightarrow> (string \<times> string) list \<Rightarrow> (js_error + obj) \<times> request list" where
  "register srv userData =
     (post_register srv userData, [Request ''POST'' ''/register'' None userData])"

section \<open>Numbers and their texts\<close>

text \<open>
  A number of the client is \<^verbatim>\<open>NaN\<close> (\<open>None\<close>) or an integer. String conversion writes a
  safe integer in decimal; beyond the safe integers the number held is the double nearest to
  the integer and its text is the browser's.
\<close>

definition digit_char :: "nat \<Rightarrow> char" where
  "digit_char d = ''0123456789'' ! d"

function str_nat :: "nat \<Rightarrow> string" where
  "str_nat n = (if n < 10 then [digit_char n] else str_nat (n div 10) @ [digit_char (n mod 10)])"
  by pat_completeness auto
termination
  by (relation "measure (\<lambda>n. n)") auto

declare str_nat.simps [simp del]

definition safe_integer :: "int \<Rightarrow> bool" where
  "safe_integer n = (\<bar>n\<bar> \<le> 9007199254740991)"

definition str_number :: "browser \<Rightarrow> int option \<Rightarrow> string" where
  "str_number env v = (case v of
       None \<Rightarrow> ''NaN''
     | Some n \<Rightarrow>
         (if safe_integer n
          then (if n < 0 then CHR ''-'' # str_nat (nat (- n)) else str_nat (nat n))
          else number_text env n))"

text \<open>Reading digits.\<close>

definition digit_value :: "char \<Rightarrow> nat option" where
  "digit_value c =
     map_of [(CHR ''0'', 0), (CHR ''1'', 1), (CHR ''2'', 2), (CHR ''3'', 3), (CHR ''4'', 4),
             (CHR ''5'', 5), (CHR ''6'', 6), (CHR ''7'', 7), (CHR ''8'', 8), (CHR ''9'', 9)] c"

definition is_digit :: "char \<Rightarrow> bool" where
  "is_digit c = (digit_value c \<noteq> None)"

definition digits_value :: "string \<Rightarrow> nat" where
  "digits_value ds =
     foldl (\<lambda>a c. 10 * a + (case digit_value c of Some v \<Rightarrow> v | None \<Rightarrow> 0)) 0 ds"

definition read_digits :: "nat \<Rightarrow> string \<Rightarrow> (nat \<times> string) option" where
  "read_digits n s =
     (if n \<le> length s \<and> list_all is_digit (take n s)
      then Some (digits_value (take n s), drop n s) else None)"

definition expect :: "char \<Rightarrow> string \<Rightarrow> string option" where
  "expect c s = (case s of [] \<Rightarrow> None | x # r \<Rightarrow> if x = c then Some r else None)"

text \<open>
  \<^verbatim>\<open>parseInt\<close> with no radix: white space is skipped, a sign is read, the prefix
  \<^verbatim>\<open>0x\<close> selects radix 16, and the longest run of digits is the value; with no digit the
  result is \<^verbatim>\<open>NaN\<close>. Whatever follows the digits is ignored.
\<close>

definition is_space :: "char \<Rightarrow> bool" where
  "is_space c =
     (c \<in> set [CHR 0x09, CHR 0x0A, CHR 0x0B, CHR 0x0C, CHR 0x0D, CHR 0x20, CHR 0xA0])"

definition hex_value :: "char \<Rightarrow> nat option" where
  "hex_value c =
     (case digit_value c of
        Some v \<Rightarrow> Some v
      | None \<Rightarrow>
          map_of [(CHR ''a'', 10), (CHR ''b'', 11), (CHR ''c'', 12), (CHR ''d'', 13),
                  (CHR ''e'', 14), (CHR ''f'', 15), (CHR ''A'', 10), (CHR ''B'', 11),
                  (CHR ''C'', 12), (CHR ''D'', 13), (CHR ''E'', 14), (CHR ''F'', 15)] c)"

definition hex_digits_value :: "string \<Rightarrow> nat" where
  "hex_digits_value ds =
     foldl (\<lambda>a c. 16 * a + (case hex_value c of Some v \<Rightarrow> v | None \<Rightarrow> 0)) 0 ds"

definition parseInt :: "string \<Rightarrow> int option" where
  "parseInt s =
     (let s1 = dropWhile is_space s;
          (sg, s2) = (case expect CHR ''-'' s1 of
                        Some r \<Rightarrow> (- 1, r)
                      | None \<Rightarrow> (case expect CHR ''+'' s1 of Some r \<Rightarrow> (1, r) | None \<Rightarrow> (1, s1)));
          hex = (take 2 s2 = ''0x'' \<or> take 2 s2 = ''0X'')
      in if hex then
           (let ds = takeWhile (\<lambda>c. hex_value c \<noteq> None) (drop 2 s2)
            in if ds = [] then None else Some (sg * int (hex_digits_value ds)))
         else
           (let ds = takeWhile is_digit s2
            in if ds = [] then None else Some (sg * int (digits_value ds))))"

text \<open>
  The number a \<^verbatim>\<open>type="number"\<close> input reads from its value. The value is a valid
  floating-point number of HTML: an optional minus sign, digits with an optional fraction or a
  fraction alone, and an optional exponent. It denotes the decimal \<open>m \<times> 10\<^sup>e\<close>, returned as
  \<open>(m, e)\<close>; any other text denotes nothing.
\<close>

definition parse_float :: "string \<Rightarrow> (int \<times> int) option" where
  "parse_float s =
     (let (sg, s1) = (case expect CHR ''-'' s of Some r \<Rightarrow> (- 1, r) | None \<Rightarrow> (1, s));
          ip = takeWhile is_digit s1;
          s2 = dropWhile is_digit s1;
          (fp, s3) = (case expect CHR ''.'' s2 of
                        None \<Rightarrow> ([], s2)
                      | Some r \<Rightarrow> (takeWhile is_digit r, dropWhile is_digit r));
          okf = (expect CHR ''.'' s2 = None \<or> fp \<noteq> []);
          has_exp = (\<not> (expect CHR ''e'' s3 = None \<and> expect CHR ''E'' s3 = None));
          s4 = (if has_exp then tl s3 else s3);
          (sx, s5) = (case expect CHR ''-'' s4 of
                        Some r \<Rightarrow> (- 1, r)
                      | None \<Rightarrow> (case expect CHR ''+'' s4 of Some r \<Rightarrow> (1, r) | None \<Rightarrow> (1, s4)));
          xp = takeWhile is_digit s5;
          oke = (if has_exp then xp \<noteq> [] else True);
          rest = (if has_exp then dropWhile is_digit s5 else s3)
      in if ip @ fp \<noteq> [] \<and> okf \<and> oke \<and> rest = []
         then Some (sg * int (digits_value (ip @ fp)),
                    (if has_exp then sx * int (digits_value xp) else 0) - int (length fp))
         else None)"

text \<open>The integer a decimal is, if it is one, and its order against an integer.\<close>

definition dec_int :: "int \<times> int \<Rightarrow> int option" where
  "dec_int d =
     (case d of (m, e) \<Rightarrow>
        if 0 \<le> e then Some (m * 10 ^ nat e)
        else if m mod 10 ^ nat (- e) = 0 then Some (m div 10 ^ nat (- e)) else None)"

definition dec_less :: "int \<times> int \<Rightarrow> int \<Rightarrow> bool" where
  "dec_less d n =
     (case d of (m, e) \<Rightarrow> if 0 \<le> e then m * 10 ^ nat e < n else m < n * 10 ^ nat (- e))"

definition dec_greater :: "int \<times> int \<Rightarrow> int \<Rightarrow> bool" where
  "dec_greater d n =
     (case d of (m, e) \<Rightarrow> if 0 \<le> e then n < m * 10 ^ nat e else n * 10 ^ nat (- e) < m)"

text \<open>The double the input holds: a safe integer is a double; anything else is rounded by the
  browser.\<close>

definition to_double :: "browser \<Rightarrow> int \<times> int \<Rightarrow> (int \<times> int) option" where
  "to_double env d =
     (case dec_int d of
        Some n \<Rightarrow> if safe_integer n then Some (n, 0) else round_double env d
      | None \<Rightarrow> round_double env d)"

section \<open>Login component\<close>

record login_form =
  lf_email :: string
  lf_password :: string
  lf_name :: string
  lf_institution :: string
  lf_study_area :: string

text \<open>The component's cells after \<open>handleSubmit\<close>, and the route it navigated to.
  A character is one code unit of the JavaScript string; the only one beyond ASCII in the
  messages below is U+00F3.\<close>

record login_page =
  isLogin :: bool
  lp_message :: string
  lp_loading :: bool
  lp_navigate :: "string option"

definition login_userData :: "login_form \<Rightarrow> (string \<times> string) list" where
  "login_userData fd =
     [(''email'', lf_email fd), (''password'', lf_password fd), (''name'', lf_name fd),
      (''institution'', lf_institution fd), (''study_area'', lf_study_area fd)]"

definition Login_handleSubmit ::
  "server \<Rightarrow> bool \<Rightarrow> login_form \<Rightarrow> session \<Rightarrow> login_page \<times> session \<times> request list" where
  "Login_handleSubmit srv is_login fd st =
     (if is_login then
        (case login srv (lf_email fd) (lf_password fd) st of
           (Inr d, st', rqs) \<Rightarrow>
             (\<lparr>isLogin = True, lp_message = [], lp_loading = False, lp_navigate = Some ''/''\<rparr>,
              st', rqs)
         | (Inl e, st', rqs) \<Rightarrow>
             (\<lparr>isLogin = True, lp_message = ''Error: '' @ error_text e, lp_loading = False,
               lp_navigate = None\<rparr>, st', rqs))
      else
        (case register srv (login_userData fd) of
           (Inr d, rqs) \<Rightarrow>
             (\<lparr>isLogin = True,
               lp_message =
                 ''Usuario registrado exitosamente. Ahora puedes iniciar sesi'' @ [CHR 0xF3] @ ''n.'',
               lp_loading = False, lp_navigate = None\<rparr>, st, rqs)
         | (Inl e, rqs) \<Rightarrow>
             (\<lparr>isLogin = False, lp_message = ''Error: '' @ error_text e, lp_loading = False,
               lp_navigate = None\<rparr>, st, rqs)))"

section \<open>SubmitPaper component\<close>

text \<open>\<open>formData\<close>. \<open>fd_word_count\<close> is the value of the \<^verbatim>\<open>type="number"\<close> input as
  \<open>handleChange\<close> stored it, a string; \<open>fd_file\<close> is the name of the chosen file, \<open>None\<close>
  for \<^verbatim>\<open>null\<close>.\<close>

record paper_form =
  fd_title :: string
  fd_authors :: string
  fd_institution :: string
  fd_email :: string
  fd_category :: string
  fd_abstract :: string
  fd_keywords :: string
  fd_word_count :: string
  fd_file :: "string option"

record submit_page =
  sp_loading :: bool
  sp_message :: string
  sp_navigate :: "string option"

definition submitData :: "browser \<Rightarrow> paper_form \<Rightarrow> (string \<times> string) list" where
  "submitData env fd =
     [(''title'', fd_title fd), (''authors'', fd_authors fd), (''institution'', fd_institution fd),
      (''email'', fd_email fd), (''category'', fd_category fd), (''abstract'', fd_abstract fd),
      (''keywords'', fd_keywords fd),
      (''word_count'', str_number env (parseInt (fd_word_count fd))),
      (''file'', str_null (fd_file fd))]"

definition handleSubmit :: "browser \<Rightarrow> server \<Rightarrow> paper_form \<Rightarrow> submit_page \<times> request list" where
  "handleSubmit env srv fd =
     (case post_submit_paper srv (submitData env fd) of
        Inr d \<Rightarrow>
          \<lparr>sp_loading = False,
           sp_message = ''Paper enviado exitosamente. DOI: '' @ str_undefined (property d ''doi''),
           sp_navigate = Some ''/papers''\<rparr>
      | Inl e \<Rightarrow>
          \<lparr>sp_loading = False,
           sp_message = ''Error al enviar el paper: '' @ error_text e,
           sp_navigate = None\<rparr>,
      [Request ''POST'' ''/submit-paper'' None (submitData env fd)])"

text \<open>
  The form is \<^verbatim>\<open><form onSubmit={handleSubmit}>\<close> without \<^verbatim>\<open>noValidate\<close>: the browser
  validates the constraints its controls declare and fires the submit event only when none is
  violated. The controls, in document order, with their attributes: seven of them
  \<^verbatim>\<open>required\<close>, the e-mail one \<^verbatim>\<open>type="email"\<close>, the word count
  \<^verbatim>\<open>type="number" min="2000" max="8000"\<close> with the default step 1 from the minimum, the
  file \<^verbatim>\<open>required\<close>. The range and the step are checked on the number the input reads
  from its value; a value it reads no number from is bad input.
\<close>

datatype validity =
    ValueMissing
  | TypeMismatch
  | BadInput
  | RangeUnderflow
  | RangeOverflow
  | StepMismatch

definition required_text :: "string \<Rightarrow> string \<Rightarrow> (string \<times> validity) list" where
  "required_text name v = (if v = [] then [(name, ValueMissing)] else [])"

definition required_email ::
  "browser \<Rightarrow> string \<Rightarrow> string \<Rightarrow> (string \<times> validity) list" where
  "required_email env name v =
     (if v = [] then [(name, ValueMissing)]
      else if \<not> email_ok env v then [(name, TypeMismatch)] else [])"

definition required_number ::
  "browser \<Rightarrow> string \<Rightarrow> int \<Rightarrow> int \<Rightarrow> string \<Rightarrow> (string \<times> validity) list" where
  "required_number env name lo hi v =
     (if v = [] then [(name, ValueMissing)]
      else
        (case parse_float v of
           None \<Rightarrow> [(name, BadInput)]
         | Some d \<Rightarrow>
             (case to_double env d of
                None \<Rightarrow> [(name, BadInput)]
              | Some x \<Rightarrow>
                  (if dec_less x lo then [(name, RangeUnderflow)] else []) @
                  (if dec_greater x hi then [(name, RangeOverflow)] else []) @
                  (if dec_int x = None then [(name, StepMismatch)] else []))))"

definition required_file :: "string \<Rightarrow> string option \<Rightarrow> (string \<times> validity) list" where
  "required_file name v = (case v of None \<Rightarrow> [(name, ValueMissing)] | Some f \<Rightarrow> [])"

definition SubmitPaper_invalid :: "browser \<Rightarrow> paper_form \<Rightarrow> (string \<times> validity) list" where
  "SubmitPaper_invalid env fd =
     required_text ''title'' (fd_title fd) @
     required_text ''authors'' (fd_authors fd) @
     required_text ''institution'' (fd_institution fd) @
     required_email env ''email'' (fd_email fd) @
     required_text ''category'' (fd_category fd) @
     required_text ''abstract'' (fd_abstract fd) @
     required_text ''keywords'' (fd_keywords fd) @
     required_number env ''word_count'' 2000 8000 (fd_word_count fd) @
     required_file ''file'' (fd_file fd)"

text \<open>Pressing the submit button: either the browser reports the invalid controls and the
  page stays as it is, or \<open>handleSubmit\<close> runs.\<close>

datatype submit_outcome = ValidationError "(string \<times> validity) list" | Handled

definition SubmitPaper_submit ::
  "browser \<Rightarrow> server \<Rightarrow> paper_form \<Rightarrow> submit_page \<Rightarrow>
     submit_outcome \<times> submit_page \<times> request list" where
  "SubmitPaper_submit env srv fd pg =
     (let bad = SubmitPaper_invalid env fd in
      if bad \<noteq> [] then (ValidationError bad, pg, [])
      else (case handleSubmit env srv fd of (pg', rqs) \<Rightarrow> (Handled, pg', rqs)))"

section \<open>Papers component\<close>

record filters =
  flt_category :: string
  flt_author :: string
  flt_institution :: string

record papers_page =
  pp_papers :: "paper list"
  pp_loading :: bool

definition search_params :: "filters \<Rightarrow> (string \<times> string) list" where
  "search_params f =
     (if flt_category f \<noteq> [] then [(''category'', flt_category f)] else []) @
     (if flt_author f \<noteq> [] then [(''author'', flt_author f)] else []) @
     (if flt_institution f \<noteq> [] then [(''institution'', flt_institution f)] else [])"

definition fetchPapers ::
  "server \<Rightarrow> filters \<Rightarrow> papers_page \<Rightarrow> papers_page \<times> request list \<times> console" where
  "fetchPapers srv f pg =
     (let rq = Request ''GET'' ''/papers'' None (search_params f) in
      case get_papers srv (search_params f) None of
        Inr ps \<Rightarrow> (pg\<lparr>pp_papers := ps, pp_loading := False\<rparr>, [rq], [])
      | Inl e \<Rightarrow> (pg\<lparr>pp_loading := False\<rparr>, [rq], [(''Error fetching papers:'', e)]))"

text \<open>
  \<^verbatim>\<open>Array.prototype.join\<close> as the language defines it: an index \<open>k\<close> runs over the
  array and the result \<open>R\<close> grows by the separator, from the second element on, and by the
  element.
\<close>

function join_loop :: "string list \<Rightarrow> string \<Rightarrow> nat \<Rightarrow> string \<Rightarrow> string" where
  "join_loop xs sep k R =
     (if k < length xs
      then join_loop xs sep (Suc k) ((if 0 < k then R @ sep else R) @ xs ! k)
      else R)"
  by pat_completeness auto
termination
  by (relation "measure (\<lambda>(xs, sep, k, R). length xs - k)") auto

declare join_loop.simps [simp del]

definition join :: "string list \<Rightarrow> string \<Rightarrow> string" where
  "join xs sep = join_loop xs sep 0 []"

text \<open>
  Time values and the calendar, as the language defines them. A time value is a number of
  milliseconds since the start of 1970 in UTC; the year of a time value \<open>t\<close> is the largest
  \<open>y\<close> with \<open>TimeFromYear y \<le> t\<close>, which \<open>YearFromDay\<close> finds by a search downwards from
  a year that is not before it.
\<close>

definition msPerDay :: int where
  "msPerDay = 86400000"

definition DayFromYear :: "int \<Rightarrow> int" where
  "DayFromYear y =
     365 * (y - 1970) + (y - 1969) div 4 - (y - 1901) div 100 + (y - 1601) div 400"

definition TimeFromYear :: "int \<Rightarrow> int" where
  "TimeFromYear y = msPerDay * DayFromYear y"

definition InLeapYear :: "int \<Rightarrow> bool" where
  "InLeapYear y = ((y mod 4 = 0 \<and> y mod 100 \<noteq> 0) \<or> y mod 400 = 0)"

definition DaysInYear :: "int \<Rightarrow> int" where
  "DaysInYear y = (if InLeapYear y then 366 else 365)"

fun year_search :: "nat \<Rightarrow> int \<Rightarrow> int \<Rightarrow> int" where
  "year_search 0 y d = y"
| "year_search (Suc n) y d = (if DayFromYear y \<le> d then y else year_search n (y - 1) d)"

definition YearFromDay :: "int \<Rightarrow> int" where
  "YearFromDay d =
     (let a = d div 365; b = d div 366
      in year_search (nat (max a b - min a b)) (1970 + max a b) d)"

definition YearFromTime :: "int \<Rightarrow> int" where
  "YearFromTime t = YearFromDay (t div msPerDay)"

text \<open>
  The date-time string format \<^verbatim>\<open>YYYY-MM-DDTHH:mm:ss.sssZ\<close> with its shorter forms: a
  date of a year, a year and a month, or all three; then nothing, or \<^verbatim>\<open>T\<close> and a time of
  hours and minutes, with seconds and with milliseconds, and an optional offset \<^verbatim>\<open>Z\<close> or
  \<^verbatim>\<open>+HH:mm\<close>, \<^verbatim>\<open>-HH:mm\<close>. \<open>df_zone\<close> is the offset from UTC in minutes; a date
  alone is read as UTC, a date and a time with no offset as local time (\<open>None\<close>).
\<close>

record date_fields =
  df_year :: nat
  df_month :: nat
  df_day :: nat
  df_hour :: nat
  df_minute :: nat
  df_second :: nat
  df_ms :: nat
  df_zone :: "int option"

definition iso_date_part :: "string \<Rightarrow> ((nat \<times> nat \<times> nat) \<times> string) option" where
  "iso_date_part s =
     (case read_digits 4 s of
        None \<Rightarrow> None
      | Some (y, r) \<Rightarrow>
          (case expect CHR ''-'' r of
             None \<Rightarrow> Some ((y, 1, 1), r)
           | Some r1 \<Rightarrow>
               (case read_digits 2 r1 of
                  None \<Rightarrow> None
                | Some (m, r2) \<Rightarrow>
                    (case expect CHR ''-'' r2 of
                       None \<Rightarrow> Some ((y, m, 1), r2)
                     | Some r3 \<Rightarrow>
                         (case read_digits 2 r3 of
                            None \<Rightarrow> None
                          | Some (d, r4) \<Rightarrow> Some ((y, m, d), r4))))))"

definition iso_time_part :: "string \<Rightarrow> ((nat \<times> nat \<times> nat \<times> nat) \<times> string) option" where
  "iso_time_part s =
     (case read_digits 2 s of
        None \<Rightarrow> None
      | Some (h, r) \<Rightarrow>
          (case expect CHR '':'' r of
             None \<Rightarrow> None
           | Some r1 \<Rightarrow>
               (case read_digits 2 r1 of
                  None \<Rightarrow> None
                | Some (mi, r2) \<Rightarrow>
                    (case expect CHR '':'' r2 of
                       None \<Rightarrow> Some ((h, mi, 0, 0), r2)
                     | Some r3 \<Rightarrow>
                         (case read_digits 2 r3 of
                            None \<Rightarrow> None
                          | Some (sec, r4) \<Rightarrow>
                              (case expect CHR ''.'' r4 of
                                 None \<Rightarrow> Some ((h, mi, sec, 0), r4)
                               | Some r5 \<Rightarrow>
                                   (case read_digits 3 r5 of
                                      None \<Rightarrow> None
                                    | Some (ms, r6) \<Rightarrow> Some ((h, mi, sec, ms), r6))))))))"

definition iso_offset :: "int \<Rightarrow> string \<Rightarrow> int option" where
  "iso_offset sign s =
     (case read_digits 2 s of
        None \<Rightarrow> None
      | Some (h, r) \<Rightarrow>
          (case expect CHR '':'' r of
             None \<Rightarrow> None
           | Some r1 \<Rightarrow>
               (case read_digits 2 r1 of
                  None \<Rightarrow> None
                | Some (mi, r2) \<Rightarrow>
                    if r2 = [] \<and> h \<le> 23 \<and> mi \<le> 59 then Some (sign * int (60 * h + mi))
                    else None)))"

definition iso_zone :: "string \<Rightarrow> int option option" where
  "iso_zone s =
     (case s of
        [] \<Rightarrow> Some None
      | c # r \<Rightarrow>
          if c = CHR ''Z'' then (if r = [] then Some (Some 0) else None)
          else if c = CHR ''+'' then map_option Some (iso_offset 1 r)
          else if c = CHR ''-'' then map_option Some (iso_offset (- 1) r)
          else None)"

definition iso_fields :: "string \<Rightarrow> date_fields option" where
  "iso_fields s =
     (case iso_date_part s of
        None \<Rightarrow> None
      | Some ((y, m, d), r) \<Rightarrow>
          if r = [] then
            Some \<lparr>df_year = y, df_month = m, df_day = d, df_hour = 0, df_minute = 0,
                  df_second = 0, df_ms = 0, df_zone = Some 0\<rparr>
          else
            (case expect CHR ''T'' r of
               None \<Rightarrow> None
             | Some r1 \<Rightarrow>
                 (case iso_time_part r1 of
                    None \<Rightarrow> None
                  | Some ((h, mi, sec, ms), r2) \<Rightarrow>
                      (case iso_zone r2 of
                         None \<Rightarrow> None
                       | Some z \<Rightarrow>
                           Some \<lparr>df_year = y, df_month = m, df_day = d, df_hour = h,
                                 df_minute = mi, df_second = sec, df_ms = ms, df_zone = z\<rparr>))))"

definition DaysInMonth :: "int \<Rightarrow> nat \<Rightarrow> nat" where
  "DaysInMonth y m =
     (if m = 2 then (if InLeapYear y then 29 else 28)
      else if m = 4 \<or> m = 6 \<or> m = 9 \<or> m = 11 then 30 else 31)"

definition DaysBeforeMonth :: "int \<Rightarrow> nat \<Rightarrow> nat" where
  "DaysBeforeMonth y m =
     [0, 31, 59, 90, 120, 151, 181, 212, 243, 273, 304, 334] ! (m - 1) +
     (if 2 < m \<and> InLeapYear y then 1 else 0)"

definition legal :: "date_fields \<Rightarrow> bool" where
  "legal f =
     (1 \<le> df_month f \<and> df_month f \<le> 12 \<and> 1 \<le> df_day f \<and>
      df_day f \<le> DaysInMonth (int (df_year f)) (df_month f) \<and>
      df_hour f \<le> 23 \<and> df_minute f \<le> 59 \<and> df_second f \<le> 59 \<and> df_ms f \<le> 999)"

definition MakeDay :: "int \<Rightarrow> nat \<Rightarrow> nat \<Rightarrow> int" where
  "MakeDay y m d = DayFromYear y + int (DaysBeforeMonth y m) + int d - 1"

definition MakeTime :: "nat \<Rightarrow> nat \<Rightarrow> nat \<Rightarrow> nat \<Rightarrow> int" where
  "MakeTime h mi sec ms = int h * 3600000 + int mi * 60000 + int sec * 1000 + int ms"

definition fields_time :: "date_fields \<Rightarrow> int" where
  "fields_time f =
     MakeDay (int (df_year f)) (df_month f) (df_day f) * msPerDay +
     MakeTime (df_hour f) (df_minute f) (df_second f) (df_ms f)"

text \<open>A time value beyond the range of dates is \<^verbatim>\<open>NaN\<close>.\<close>

definition TimeClip :: "int \<Rightarrow> int option" where
  "TimeClip t = (if \<bar>t\<bar> \<le> 8640000000000000 then Some t else None)"

text \<open>
  \<^verbatim>\<open>new Date(s)\<close> for a string \<open>s\<close>: the time value \<^verbatim>\<open>Date.parse\<close> gives, clipped,
  \<open>None\<close> for \<^verbatim>\<open>NaN\<close>. A string of the four-digit-year forms above with fields in their
  ranges is read as the language prescribes; every other string (among them the forms with a
  six-digit year, the hour 24 and every string outside the format) gets the time value the
  browser gives it.
\<close>

definition Date_parse :: "browser \<Rightarrow> string \<Rightarrow> int option" where
  "Date_parse env s =
     (case iso_fields s of
        None \<Rightarrow> legacy_parse env s
      | Some f \<Rightarrow>
          if legal f then
            (case df_zone f of
               Some off \<Rightarrow> Some (fields_time f - off * 60000)
             | None \<Rightarrow> Some (fields_time f - LocalTZA env (fields_time f) False))
          else legacy_parse env s)"

definition Date_value :: "browser \<Rightarrow> string \<Rightarrow> int option" where
  "Date_value env s = (case Date_parse env s of None \<Rightarrow> None | Some t \<Rightarrow> TimeClip t)"

text \<open>\<^verbatim>\<open>getFullYear()\<close>: the year of the local time of the date, \<^verbatim>\<open>NaN\<close> for an invalid
  date.\<close>

definition getFullYear :: "browser \<Rightarrow> int option \<Rightarrow> int option" where
  "getFullYear env tv =
     (case tv of None \<Rightarrow> None | Some t \<Rightarrow> Some (YearFromTime (t + LocalTZA env t True)))"

definition generateCitation :: "browser \<Rightarrow> paper \<Rightarrow> string" where
  "generateCitation env p =
     (let year = getFullYear env (Date_value env (submission_date p)) in
      join (authors p) '', '' @ ''. ('' @ str_number env year @ ''). '' @ title p @
      ''. La Revista Nacional de las Ciencias para Estudiantes. DOI: '' @ str_jstring (doi p))"

text \<open>The spec's words for the same string: the authors joined by a comma and a space, then the
  year, the title, the journal name and the identifier.\<close>

fun joined_by :: "string \<Rightarrow> string list \<Rightarrow> string" where
  "joined_by sep [] = []"
| "joined_by sep [x] = x"
| "joined_by sep (x # y # ys) = x @ sep @ joined_by sep (y # ys)"

definition journal_name :: string where
  "journal_name = ''La Revista Nacional de las Ciencias para Estudiantes''"

section \<open>Header and AdminDashboard components\<close>

text \<open>\<^verbatim>\<open>user?.role\<close>\<close>

definition opt_role :: "obj option \<Rightarrow> string option" where
  "opt_role u = (case u of None \<Rightarrow> None | Some d \<Rightarrow> property d ''role'')"

text \<open>The condition under which \<open>Header\<close> renders the link to \<^verbatim>\<open>/admin\<close>.\<close>

definition Header_admin_link :: "obj option \<Rightarrow> bool" where
  "Header_admin_link u = (opt_role u = Some ''admin'' \<or> opt_role u = Some ''super_admin'')"

record dashboard =
  d_papers :: "paper list"
  d_applications :: "application list"
  d_loading :: bool

definition initial_dashboard :: dashboard where
  "initial_dashboard = \<lparr>d_papers = [], d_applications = [], d_loading = True\<rparr>"

text \<open>The condition of the mount effect, and the condition of the redirect before the page.\<close>

definition effect_guard :: "obj option \<Rightarrow> bool" where
  "effect_guard u =
     (case u of
        None \<Rightarrow> False
      | Some d \<Rightarrow> property d ''role'' = Some ''admin'' \<or> property d ''role'' = Some ''super_admin'')"

definition redirect_guard :: "obj option \<Rightarrow> bool" where
  "redirect_guard u =
     (case u of
        None \<Rightarrow> True
      | Some d \<Rightarrow> property d ''role'' \<noteq> Some ''admin'' \<and> property d ''role'' \<noteq> Some ''super_admin'')"

definition fetchPendingPapers ::
  "server \<Rightarrow> session \<Rightarrow> dashboard \<Rightarrow> dashboard \<times> request list \<times> console" where
  "fetchPendingPapers srv st db =
     (let h = bearer (str_null (token st));
          rq = Request ''GET'' ''/papers'' (Some h) [(''status'', ''pending'')] in
      case get_papers srv [(''status'', ''pending'')] (Some h) of
        Inr ps \<Rightarrow> (db\<lparr>d_papers := ps\<rparr>, [rq], [])
      | Inl e \<Rightarrow> (db, [rq], [(''Error fetching papers:'', e)]))"

definition fetchApplications ::
  "server \<Rightarrow> session \<Rightarrow> dashboard \<Rightarrow> dashboard \<times> request list \<times> console" where
  "fetchApplications srv st db =
     (let h = bearer (str_null (token st));
          rq = Request ''GET'' ''/admin/applications'' (Some h) [] in
      case get_applications srv h of
        Inr as \<Rightarrow> (db\<lparr>d_applications := as, d_loading := False\<rparr>, [rq], [])
      | Inl e \<Rightarrow> (db\<lparr>d_loading := False\<rparr>, [rq], [(''Error fetching applications:'', e)]))"

definition AdminDashboard_effect ::
  "server \<Rightarrow> session \<Rightarrow> dashboard \<Rightarrow> dashboard \<times> request list \<times> console" where
  "AdminDashboard_effect srv st db =
     (if effect_guard (user st) then
        (case fetchPendingPapers srv st db of
           (db1, rqs1, log1) \<Rightarrow>
             (case fetchApplications srv st db1 of
                (db2, rqs2, log2) \<Rightarrow> (db2, rqs1 @ rqs2, log1 @ log2)))
      else (db, [], []))"

text \<open>
  \<open>handleReview\<close> is created anew by every render and reads \<^verbatim>\<open>papers\<close> from that
  render: \<open>papers\<close> is the list the render that made the button held, and \<open>db\<close> is the state
  of the component when the request is answered; \<^verbatim>\<open>setPapers\<close> replaces the list of the
  state by the render's list without the reviewed paper. \<open>comments\<close> is the document: the
  value of the element \<^verbatim>\<open>#comment-<paperId>\<close>, if there is one; reading \<^verbatim>\<open>.value\<close> of
  \<^verbatim>\<open>null\<close> throws before the \<^verbatim>\<open>try\<close> block. The first component of the result is how
  the promise settles.
\<close>

definition handleReview ::
  "server \<Rightarrow> (string \<Rightarrow> string option) \<Rightarrow> session \<Rightarrow> paper list \<Rightarrow> dashboard \<Rightarrow>
     string \<Rightarrow> string \<Rightarrow> (js_error + unit) \<times> dashboard \<times> request list \<times> console" where
  "handleReview srv comments st papers db paperId action =
     (case comments paperId of
        None \<Rightarrow> (Inl (TypeError ''Cannot read properties of null (reading 'value')''), db, [], [])
      | Some comment \<Rightarrow>
          (let h = bearer (str_null (token st));
               rq = Request ''POST'' (''/review/'' @ paperId) (Some h)
                      [(''action'', action), (''comment'', comment)] in
           case post_review srv h paperId action comment of
             Inr ok \<Rightarrow>
               (Inr (), db\<lparr>d_papers := filter (\<lambda>p. paper_id p \<noteq> paperId) papers\<rparr>, [rq], [])
           | Inl e \<Rightarrow> (Inr (), db, [rq], [(''Error reviewing paper:'', e)])))"

text \<open>What the component renders: the redirect, the loading line, or the console with one
  card per pending paper and one per application, each with its links and buttons.\<close>

datatype control = Link string | ReviewButton string string

datatype view =
    Navigate string
  | Loading_page
  | Console_page "(paper \<times> control list) list" "(application \<times> control list) list"

definition paper_card :: "paper \<Rightarrow> paper \<times> control list" where
  "paper_card p =
     (p, [Link (file_url p), ReviewButton (paper_id p) ''approved'',
          ReviewButton (paper_id p) ''rejected''])"

definition application_card :: "application \<Rightarrow> application \<times> control list" where
  "application_card a = (a, [Link (cv_url a), Link (certificates_url a)])"

definition AdminDashboard :: "obj option \<Rightarrow> dashboard \<Rightarrow> view" where
  "AdminDashboard u db =
     (if redirect_guard u then Navigate ''/login''
      else if d_loading db then Loading_page
      else Console_page (map paper_card (d_papers db)) (map application_card (d_applications db)))"

text \<open>
  The controls a rendered page offers, and a click on one of them. \<open>rendered\<close> is the state
  the page was rendered from and \<open>db\<close> the state of the component when the handler's request
  is answered. Only a review button of the rendered page runs \<open>handleReview\<close>, with the
  paper list of that render; a link has no handler of the component, and a control the page
  does not have cannot be clicked.
\<close>

definition controls :: "view \<Rightarrow> control list" where
  "controls v =
     (case v of
        Navigate l \<Rightarrow> []
      | Loading_page \<Rightarrow> []
      | Console_page ps as \<Rightarrow> concat (map snd ps) @ concat (map snd as))"

definition click ::
  "server \<Rightarrow> (string \<Rightarrow> string option) \<Rightarrow> session \<Rightarrow> dashboard \<Rightarrow> control \<Rightarrow> dashboard \<Rightarrow>
     ((js_error + unit) \<times> dashboard \<times> request list \<times> console) option" where
  "click srv comments st rendered c db =
     (if c \<in> set (controls (AdminDashboard (user st) rendered)) then
        (case c of
           ReviewButton i a \<Rightarrow> Some (handleReview srv comments st (d_papers rendered) db i a)
         | Link l \<Rightarrow> None)
      else None)"

text \<open>
  The admin actions and the condition under which the client opens each of them to the
  session's user: the console page and the review buttons on its paper cards are rendered
  unless the component redirects; the two lists are fetched when the mount effect's condition
  holds; an application card carries two links and no button, and the component has no
  handler that decides an application.
\<close>

datatype action =
    ViewAdminConsole
  | ListPendingManuscripts
  | ListReviewerApplications
  | DecideManuscript
  | DecideApplication

definition admin_action_open :: "obj option \<Rightarrow> action \<Rightarrow> bool" where
  "admin_action_open u a =
     (case a of
        ViewAdminConsole \<Rightarrow> \<not> redirect_guard u
      | ListPendingManuscripts \<Rightarrow> effect_guard u
      | ListReviewerApplications \<Rightarrow> effect_guard u
      | DecideManuscript \<Rightarrow> \<not> redirect_guard u
      | DecideApplication \<Rightarrow> False)"

definition admin_role :: "obj option \<Rightarrow> bool" where
  "admin_role u = (opt_role u \<in> {Some ''admin'', Some ''super_admin''})"

fun is_review_button :: "control \<Rightarrow> bool" where
  "is_review_button (ReviewButton i a) = True"
| "is_review_button (Link l) = False"

section \<open>The collaborator's submission workflow\<close>

text \<open>Modelled from the spec: the manuscripts the collaborator stores, their states and the
  error kinds of its workflow. The server that holds them is not among the client's sources;
  the definitions of this section follow the design document instead.\<close>

datatype status = Pending | Approved | Rejected

datatype decision = Approve | Reject

datatype workflow_error =
    E_ValidationError
  | E_UnsupportedFileType
  | E_AuthorizationError
  | E_InvalidStateTransition

record submission =
  sub_title :: string
  sub_authors :: "string list"
  sub_institution :: string
  sub_email :: string
  sub_category :: string
  sub_abstract :: string
  sub_keywords :: "string list"
  sub_word_count :: int
  sub_file :: string

record manuscript =
  ms_id :: nat
  ms_fields :: submission
  ms_status :: status
  ms_doi :: "string option"

type_synonym store = "manuscript list"

text \<open>Modelled from the spec: the required fields of a submission are all present.\<close>

definition fields_present :: "submission \<Rightarrow> bool" where
  "fields_present s =
     (sub_title s \<noteq> [] \<and> sub_authors s \<noteq> [] \<and> sub_institution s \<noteq> [] \<and> sub_email s \<noteq> [] \<and>
      sub_category s \<noteq> [] \<and> sub_abstract s \<noteq> [] \<and> sub_keywords s \<noteq> [] \<and> sub_file s \<noteq> [])"

text \<open>Modelled from the spec: the collaborator's \<open>submit\<close> transition, which is not in the
  client. It validates that the required fields are present and the word count is in range,
  then that the file has an accepted extension (the parameter \<open>accepted\<close>), and creates the
  manuscript in \<open>Pending\<close> with no doi, returning the assigned id.\<close>

definition submit_spec ::
  "(string \<Rightarrow> bool) \<Rightarrow> submission \<Rightarrow> store \<Rightarrow> workflow_error + nat \<times> store" where
  "submit_spec accepted s ms =
     (if \<not> fields_present s \<or> sub_word_count s < 2000 \<or> 8000 < sub_word_count s
      then Inl E_ValidationError
      else if \<not> accepted (sub_file s) then Inl E_UnsupportedFileType
      else Inr (length ms,
                ms @ [\<lparr>ms_id = length ms, ms_fields = s, ms_status = Pending, ms_doi = None\<rparr>]))"

text \<open>Modelled from the spec: the effect of a decision on one manuscript. Approval assigns
  the doi the collaborator computes (the parameter \<open>assign\<close>); rejection assigns none.\<close>

definition decided :: "(nat \<Rightarrow> string) \<Rightarrow> decision \<Rightarrow> manuscript \<Rightarrow> manuscript" where
  "decided assign d m =
     (case d of
        Approve \<Rightarrow> m\<lparr>ms_status := Approved, ms_doi := Some (assign (ms_id m))\<rparr>
      | Reject \<Rightarrow> m\<lparr>ms_status := Rejected\<rparr>)"

text \<open>Modelled from the spec: the collaborator's \<open>decide\<close> transition, which is not in the
  client. It requires a caller whose role is admin or super_admin and is legal only from
  \<open>Pending\<close>, so an id under which no manuscript is pending is refused as an invalid
  transition; the comment is not durable state.\<close>

definition decide_spec ::
  "(nat \<Rightarrow> string) \<Rightarrow> obj option \<Rightarrow> nat \<Rightarrow> decision \<Rightarrow> string \<Rightarrow> store \<Rightarrow> workflow_error + store" where
  "decide_spec assign caller i d comment ms =
     (if \<not> admin_role caller then Inl E_AuthorizationError
      else case find (\<lambda>m. ms_id m = i) ms of
             None \<Rightarrow> Inl E_InvalidStateTransition
           | Some m \<Rightarrow>
               (if ms_status m \<noteq> Pending then Inl E_InvalidStateTransition
                else Inr (map (\<lambda>m. if ms_id m = i then decided assign d m else m) ms)))"

text \<open>Modelled from the spec: the stores the collaborator can be in. It starts empty and
  changes only by the two transitions; a transition that fails changes nothing.\<close>

datatype operation = Submit submission | Decide "obj option" nat decision string

fun apply_operation ::
  "(string \<Rightarrow> bool) \<Rightarrow> (nat \<Rightarrow> string) \<Rightarrow> store \<Rightarrow> operation \<Rightarrow> store" where
  "apply_operation accepted assign ms (Submit s) =
     (case submit_spec accepted s ms of Inl e \<Rightarrow> ms | Inr (i, ms') \<Rightarrow> ms')"
| "apply_operation accepted assign ms (Decide caller i d comment) =
     (case decide_spec assign caller i d comment ms of Inl e \<Rightarrow> ms | Inr ms' \<Rightarrow> ms')"

definition run :: "(string \<Rightarrow> bool) \<Rightarrow> (nat \<Rightarrow> string) \<Rightarrow> operation list \<Rightarrow> store" where
  "run accepted assign ops = foldl (apply_operation accepted assign) [] ops"

text \<open>Modelled from the spec: the invariant of the data model, and the shape of a store in
  which every manuscript satisfies it and the ids are the positions.\<close>

definition doi_iff_approved :: "manuscript \<Rightarrow> bool" where
  "doi_iff_approved m = ((ms_status m = Approved) = (ms_doi m \<noteq> None))"

definition store_ok :: "store \<Rightarrow> bool" where
  "store_ok ms = (map ms_id ms = [0..<length ms] \<and> (\<forall>m\<in>set ms. doi_iff_approved m))"

section \<open>Sample data\<close>

definition ana :: obj where
  "ana = [(''id'', ''7''), (''name'', ''Ana''), (''email'', ''ana@uc.cl''), (''role'', ''admin'')]"

definition luis :: obj where
  "luis = [(''id'', ''9''), (''name'', ''Luis''), (''email'', ''luis@uc.cl''), (''role'', ''student'')]"

definition paper_a :: paper where
  "paper_a = \<lparr>paper_id = ''a1'', title = ''Ondas'', authors = [''Ana Rojas'', ''Luis Soto''],
     institution = ''Penta UC'', category = ''Fisica'', abstract_text = ''Resumen'',
     key_words = [''ondas''], word_count = 3000, file_url = ''/files/a1.docx'',
     submission_date = ''2024-05-17T10:00:00'', doi = Str ''10.1234/rnce.1''\<rparr>"

definition paper_b :: paper where
  "paper_b = \<lparr>paper_id = ''b2'', title = ''Suelos'', authors = [''Eva Mora''],
     institution = ''Liceo 1'', category = ''Geologia'', abstract_text = ''Resumen'',
     key_words = [''suelos''], word_count = 2500, file_url = ''/files/b2.doc'',
     submission_date = ''2024-06-01T09:30:00'', doi = Null\<rparr>"

text \<open>A paper submitted half an hour after the start of 2024 in UTC.\<close>

definition paper_z :: paper where
  "paper_z = \<lparr>paper_id = ''z9'', title = ''Mareas'', authors = [''Eva Mora''],
     institution = ''Liceo 1'', category = ''Fisica'', abstract_text = ''Resumen'',
     key_words = [''mareas''], word_count = 2100, file_url = ''/files/z9.docx'',
     submission_date = ''2024-01-01T00:30:00Z'', doi = Str ''10.1234/rnce.9''\<rparr>"

definition application_c :: application where
  "application_c = \<lparr>app_id = ''c3'', app_name = ''Eva'', app_email = ''eva@uc.cl'',
     app_institution = ''Liceo 1'', specialization = [''Quimica''], experience = ''Ayudante'',
     cv_url = ''/files/cv.pdf'', certificates_url = ''/files/cert.pdf''\<rparr>"

text \<open>A collaborator that knows one account and answers every other request with success.\<close>

definition unauthorized :: js_error where
  "unauthorized =
     AxiosError (Some ''Incorrect email or password'') ''Request failed with status code 401''"

definition sample_server :: server where
  "sample_server =
     \<lparr>post_token = (\<lambda>e p. if e = ''ana@uc.cl'' \<and> p = ''clave''
                           then Inr [(''access_token'', ''t0k''), (''token_type'', ''bearer'')]
                           else Inl unauthorized),
      get_current_user = (\<lambda>h. if h = ''Bearer t0k'' then Inr ana else Inl unauthorized),
      post_register = (\<lambda>d. Inr []),
      post_submit_paper = (\<lambda>d. Inr [(''doi'', ''10.1234/rnce.2'')]),
      get_papers = (\<lambda>q h. Inr [paper_a]),
      get_applications = (\<lambda>h. Inr [application_c]),
      post_review = (\<lambda>h i a c. Inr ())\<rparr>"

text \<open>A collaborator that cannot be reached.\<close>

definition network_error :: js_error where
  "network_error = AxiosError None ''Network Error''"

definition unreachable_server :: server where
  "unreachable_server =
     \<lparr>post_token = (\<lambda>e p. Inl network_error),
      get_current_user = (\<lambda>h. Inl network_error),
      post_register = (\<lambda>d. Inl network_error),
      post_submit_paper = (\<lambda>d. Inl network_error),
      get_papers = (\<lambda>q h. Inl network_error),
      get_applications = (\<lambda>h. Inl network_error),
      post_review = (\<lambda>h i a c. Inl network_error)\<rparr>"

definition sample_form :: paper_form where
  "sample_form = \<lparr>fd_title = ''X'', fd_authors = ''A, B'', fd_institution = ''Penta UC'',
     fd_email = ''a@uc.cl'', fd_category = ''Fisica'', fd_abstract = ''Resumen'',
     fd_keywords = ''ondas'', fd_word_count = ''3000'', fd_file = Some ''paper.docx''\<rparr>"

definition sample_submission :: submission where
  "sample_submission = \<lparr>sub_title = ''X'', sub_authors = [''A'', ''B''],
     sub_institution = ''Penta UC'', sub_email = ''a@uc.cl'', sub_category = ''Fisica'',
     sub_abstract = ''Resumen'', sub_keywords = [''ondas''], sub_word_count = 3000,
     sub_file = ''paper.docx''\<rparr>"

text \<open>A browser in a time zone a fixed number of minutes from UTC, which accepts every
  e-mail address, holds every decimal as it is written and reads no date outside the
  format.\<close>

definition browser_at :: "int \<Rightarrow> browser" where
  "browser_at minutes =
     \<lparr>email_ok = (\<lambda>s. True), round_double = (\<lambda>d. Some d), number_text = (\<lambda>n. []),
      LocalTZA = (\<lambda>t u. minutes * 60000), legacy_parse = (\<lambda>s. None)\<rparr>"

text \<open>The session of the admin after the login, a dashboard that shows two pending papers,
  and the page of the submission form before anything was sent.\<close>

definition paper_c :: paper where
  "paper_c = \<lparr>paper_id = ''c4'', title = ''Aves'', authors = [''Luis Soto''],
     institution = ''Penta UC'', category = ''Biologia'', abstract_text = ''Resumen'',
     key_words = [''aves''], word_count = 4000, file_url = ''/files/c4.docx'',
     submission_date = ''2024-06-03T16:45:00'', doi = Null\<rparr>"

definition admin_session :: session where
  "admin_session = \<lparr>user = Some ana, loading = False, token = Some ''t0k''\<rparr>"

definition two_pending :: dashboard where
  "two_pending =
     \<lparr>d_papers = [paper_b, paper_c], d_applications = [application_c], d_loading = False\<rparr>"

definition blank_page :: submit_page where
  "blank_page = \<lparr>sp_loading = False, sp_message = [], sp_navigate = None\<rparr>"

section \<open>Session manager\<close>

text \<open>C7: when the collaborator rejects the credentials, \<open>login\<close> rejects with the very
  error the collaborator gave, after the single request to \<^verbatim>\<open>/token\<close>, and the session
  (user, loading flag, stored token) is the one before the call: a session that was empty
  remains empty and no token is stored.\<close>

theorem login_rejected_unchanged:
  "post_token srv email password = Inl e \<Longrightarrow>
   login srv email password st =
     (Inl e, st, [Request ''POST'' ''/token'' None [(''username'', email), (''password'', password)]])"
  by (simp add: login_def)

theorem login_rejected_unchanged_witness:
  "post_token sample_server ''bad@x.com'' ''wrong'' = Inl unauthorized \<and>
   login sample_server ''bad@x.com'' ''wrong'' (initial_session None) =
     (Inl unauthorized, initial_session None,
      [Request ''POST'' ''/token'' None [(''username'', ''bad@x.com''), (''password'', ''wrong'')]])"
  using login_rejected_unchanged [of sample_server "''bad@x.com''" "''wrong''" unauthorized
      "initial_session None"]
  by (simp add: sample_server_def)

text \<open>C6, as the client has it: when \<^verbatim>\<open>/token\<close> answers with an access token and
  \<^verbatim>\<open>/current_user\<close> accepts it, \<open>login\<close> stores the token, sets the session's user to
  the identity \<^verbatim>\<open>/current_user\<close> returned, and resolves with the data of the
  \<^verbatim>\<open>/token\<close> response.\<close>

theorem login_success:
  assumes "post_token srv email password = Inr d"
    and "property d ''access_token'' = Some t"
    and "get_current_user srv (bearer t) = Inr u"
  shows "login srv email password st =
     (Inr d, st\<lparr>user := Some u, loading := False, token := Some t\<rparr>,
      [Request ''POST'' ''/token'' None [(''username'', email), (''password'', password)],
       Request ''GET'' ''/current_user'' (Some (bearer t)) []])"
  using assms by (simp add: login_def fetchCurrentUser_def str_undefined_def)

theorem login_success_witness:
  "post_token sample_server ''ana@uc.cl'' ''clave'' =
     Inr [(''access_token'', ''t0k''), (''token_type'', ''bearer'')] \<and>
   property [(''access_token'', ''t0k''), (''token_type'', ''bearer'')] ''access_token'' = Some ''t0k'' \<and>
   get_current_user sample_server (bearer ''t0k'') = Inr ana \<and>
   login sample_server ''ana@uc.cl'' ''clave'' (initial_session None) =
     (Inr [(''access_token'', ''t0k''), (''token_type'', ''bearer'')],
      \<lparr>user = Some ana, loading = False, token = Some ''t0k''\<rparr>,
      [Request ''POST'' ''/token'' None [(''username'', ''ana@uc.cl''), (''password'', ''clave'')],
       Request ''GET'' ''/current_user'' (Some ''Bearer t0k'') []])"
proof -
  have a: "post_token sample_server ''ana@uc.cl'' ''clave'' =
     Inr [(''access_token'', ''t0k''), (''token_type'', ''bearer'')]"
    by (simp add: sample_server_def)
  have b: "property [(''access_token'', ''t0k''), (''token_type'', ''bearer'')] ''access_token'' =
     Some ''t0k''"
    by (simp add: property_def)
  have c: "get_current_user sample_server (bearer ''t0k'') = Inr ana"
    by (simp add: sample_server_def bearer_def)
  have d: "bearer ''t0k'' = ''Bearer t0k''"
    by (simp add: bearer_def)
  from login_success [OF a b c, of "initial_session None"] a b c d show ?thesis
    by (simp add: initial_session_def)
qed

text \<open>What \<open>login\<close> resolves with is the token response, not the identity it has put into
  the session.\<close>

theorem login_returns_identity_counterexample:
  "login sample_server ''ana@uc.cl'' ''clave'' (initial_session None) =
     (Inr [(''access_token'', ''t0k''), (''token_type'', ''bearer'')],
      \<lparr>user = Some ana, loading = False, token = Some ''t0k''\<rparr>,
      [Request ''POST'' ''/token'' None [(''username'', ''ana@uc.cl''), (''password'', ''clave'')],
       Request ''GET'' ''/current_user'' (Some ''Bearer t0k'') []]) \<and>
   fst (login sample_server ''ana@uc.cl'' ''clave'' (initial_session None)) \<noteq> Inr ana"
  by (simp add: login_def fetchCurrentUser_def str_undefined_def sample_server_def
      initial_session_def property_def bearer_def ana_def Let_def)

section \<open>Submission form\<close>

lemma dec_int_order:
  assumes "dec_int x = Some n"
  shows "dec_less x lo = (n < lo) \<and> dec_greater x hi = (hi < n)"
proof (cases x)
  case (Pair m e)
  show ?thesis
  proof (cases "0 \<le> e")
    case True
    with assms Pair show ?thesis
      by (auto simp: dec_int_def dec_less_def dec_greater_def)
  next
    case False
    let ?p = "(10::int) ^ nat (- e)"
    have p: "0 < ?p"
      by simp
    from assms Pair False have n: "n = m div ?p" and "m mod ?p = 0"
      by (auto simp: dec_int_def split: if_splits)
    then have m: "m = n * ?p"
      by auto
    have "(n * ?p < lo * ?p) = (n < lo)" "(hi * ?p < n * ?p) = (hi < n)"
      using p by (simp_all only: mult_less_cancel_right_pos)
    with Pair False m show ?thesis
      by (simp add: dec_less_def dec_greater_def)
  qed
qed

text \<open>When the browser lets the form through, the number it read from the word-count field
  is a whole number from 2000 to 8000.\<close>

lemma validated_number_in_range:
  assumes "SubmitPaper_submit env srv fd pg = (Handled, pg', rqs)"
  shows "\<exists>d x n. parse_float (fd_word_count fd) = Some d \<and> to_double env d = Some x \<and>
           dec_int x = Some n \<and> 2000 \<le> n \<and> n \<le> 8000"
proof -
  from assms have "SubmitPaper_invalid env fd = []"
    by (simp add: SubmitPaper_submit_def Let_def split: if_splits)
  then have r: "required_number env ''word_count'' 2000 8000 (fd_word_count fd) = []"
    by (simp add: SubmitPaper_invalid_def)
  then obtain d where d: "parse_float (fd_word_count fd) = Some d"
    by (auto simp: required_number_def split: if_splits option.splits)
  with r obtain x where x: "to_double env d = Some x"
    by (auto simp: required_number_def split: if_splits option.splits)
  with r d obtain n where n: "dec_int x = Some n"
    by (auto simp: required_number_def split: if_splits option.splits)
  from r d x have "\<not> dec_less x 2000" "\<not> dec_greater x 8000"
    by (auto simp: required_number_def split: if_splits option.splits)
  with dec_int_order [OF n] have "2000 \<le> n" "n \<le> 8000"
    by auto
  with d x n show ?thesis
    by blast
qed

text \<open>
  C4: the check of the range and the value that is posted are read from the text of the field
  by two different readers. The browser reads the text \<^verbatim>\<open>3e3\<close> as the number 3000, finds
  it in the range and lets the form through; \<open>handleSubmit\<close> then posts what
  \<^verbatim>\<open>parseInt\<close> reads from the same text, the word count 3, with no validation error. The
  text \<^verbatim>\<open>3\<close> itself is refused by the browser as below the minimum.
\<close>

theorem word_count_posted_unvalidated:
  "parse_float ''3e3'' = Some (3, 3) \<and>
   to_double (browser_at z) (3, 3) = Some (3000, 0) \<and>
   parseInt ''3e3'' = Some 3 \<and>
   SubmitPaper_submit (browser_at z) sample_server (sample_form\<lparr>fd_word_count := ''3e3''\<rparr>)
       blank_page =
     (Handled,
      \<lparr>sp_loading = False, sp_message = ''Paper enviado exitosamente. DOI: 10.1234/rnce.2'',
       sp_navigate = Some ''/papers''\<rparr>,
      [Request ''POST'' ''/submit-paper'' None
         [(''title'', ''X''), (''authors'', ''A, B''), (''institution'', ''Penta UC''),
          (''email'', ''a@uc.cl''), (''category'', ''Fisica''), (''abstract'', ''Resumen''),
          (''keywords'', ''ondas''), (''word_count'', ''3''), (''file'', ''paper.docx'')]]) \<and>
   SubmitPaper_submit (browser_at z) sample_server (sample_form\<lparr>fd_word_count := ''3''\<rparr>)
       blank_page =
     (ValidationError [(''word_count'', RangeUnderflow)], blank_page, [])"
  by code_simp

section \<open>Citation\<close>

lemma join_loop_from:
  "0 < k \<Longrightarrow> join_loop xs sep k R = R @ concat (map (\<lambda>x. sep @ x) (drop k xs))"
proof (induction xs sep k R rule: join_loop.induct)
  case (1 xs sep k R)
  show ?case
  proof (cases "k < length xs")
    case True
    then have d: "drop k xs = xs ! k # drop (Suc k) xs"
      by (simp add: Cons_nth_drop_Suc)
    from True "1.prems" "1.IH" show ?thesis
      by (subst join_loop.simps) (simp add: d)
  next
    case False
    then show ?thesis
      by (subst join_loop.simps) simp
  qed
qed

lemma joined_by_Cons: "joined_by sep (x # xs) = x @ concat (map (\<lambda>y. sep @ y) xs)"
  by (induction xs arbitrary: x) auto

lemma join_joined_by: "join xs sep = joined_by sep xs"
proof (cases xs)
  case Nil
  then show ?thesis
    by (simp add: join_def join_loop.simps)
next
  case (Cons x ys)
  have "join_loop (x # ys) sep 0 [] = join_loop (x # ys) sep (Suc 0) x"
    by (subst join_loop.simps) simp
  then show ?thesis
    using Cons by (simp add: join_def join_loop_from joined_by_Cons)
qed

text \<open>The calendar: the day a year starts on grows by the length of the year, so every day
  lies in exactly one year, and \<open>YearFromTime\<close> finds it.\<close>

lemma div_succ:
  fixes a n :: int
  assumes "0 < n"
  shows "(a + 1) div n = a div n + (if (a + 1) mod n = 0 then 1 else 0)"
proof -
  define q where "q = a div n"
  define r where "r = a mod n"
  have a: "a = n * q + r" and r: "0 \<le> r" "r < n"
    using assms by (simp_all add: q_def r_def)
  show ?thesis
  proof (cases "r + 1 = n")
    case True
    then have e: "a + 1 = n * (q + 1) + 0"
      using a by (simp add: algebra_simps)
    have "(a + 1) div n = q + 1"
      by (rule int_div_pos_eq [OF e]) (use assms in simp_all)
    moreover have "(a + 1) mod n = 0"
      by (rule int_mod_pos_eq [OF e]) (use assms in simp_all)
    ultimately show ?thesis
      by (simp add: q_def)
  next
    case False
    with r have lt: "r + 1 < n" by simp
    have e: "a + 1 = n * q + (r + 1)"
      using a by simp
    have "(a + 1) div n = q"
      by (rule int_div_pos_eq [OF e]) (use r lt in simp_all)
    moreover have "(a + 1) mod n = r + 1"
      by (rule int_mod_pos_eq [OF e]) (use r lt in simp_all)
    ultimately show ?thesis
      using r by (simp add: q_def)
  qed
qed

lemma DayFromYear_step: "DayFromYear (y + 1) = DayFromYear y + DaysInYear y"
proof -
  have m4: "(y - 1968) mod 4 = y mod 4"
    using mod_diff_right_eq [of y 1968 4] by simp
  have m100: "(y - 1900) mod 100 = y mod 100"
    using mod_diff_right_eq [of y 1900 100] by simp
  have m400: "(y - 1600) mod 400 = y mod 400"
    using mod_diff_right_eq [of y 1600 400] by simp
  have a4: "(y - 1968) div 4 = (y - 1969) div 4 + (if y mod 4 = 0 then 1 else 0)"
    using div_succ [of 4 "y - 1969"] m4 by simp
  have a100: "(y - 1900) div 100 = (y - 1901) div 100 + (if y mod 100 = 0 then 1 else 0)"
    using div_succ [of 100 "y - 1901"] m100 by simp
  have a400: "(y - 1600) div 400 = (y - 1601) div 400 + (if y mod 400 = 0 then 1 else 0)"
    using div_succ [of 400 "y - 1601"] m400 by simp
  have d400: "y mod 100 = 0" if "y mod 400 = 0"
    using that by (metis dvd_trans mod_eq_0_iff_dvd dvd_triv_left mult.commute
        numeral_Bit0 mult_2 dvd_refl)
  have d100: "y mod 4 = 0" if "y mod 100 = 0"
    using that dvd_trans [of 4 100 y] by (simp add: mod_eq_0_iff_dvd)
  have e: "DayFromYear (y + 1) =
      365 * (y - 1969) + (y - 1968) div 4 - (y - 1900) div 100 + (y - 1600) div 400"
    by (simp add: DayFromYear_def)
  show ?thesis
    unfolding e a4 a100 a400
    using d400 d100 by (auto simp: DayFromYear_def DaysInYear_def InLeapYear_def)
qed

lemma DaysInYear_range: "DaysInYear y = 365 \<or> DaysInYear y = 366"
  by (simp add: DaysInYear_def)

lemma DayFromYear_1970: "DayFromYear 1970 = 0"
  by (simp add: DayFromYear_def)

lemma DayFromYear_bounds_pos:
  "0 \<le> k \<Longrightarrow> 365 * k \<le> DayFromYear (1970 + k) \<and> DayFromYear (1970 + k) \<le> 366 * k"
proof (induction k rule: int_ge_induct)
  case base
  show ?case by (simp add: DayFromYear_1970)
next
  case (step i)
  have "DayFromYear (1970 + (i + 1)) = DayFromYear (1970 + i) + DaysInYear (1970 + i)"
    using DayFromYear_step [of "1970 + i"] by (simp add: add.assoc)
  with step.IH DaysInYear_range [of "1970 + i"] show ?case
    by auto
qed

lemma DayFromYear_bounds_neg:
  "k \<le> 0 \<Longrightarrow> 366 * k \<le> DayFromYear (1970 + k) \<and> DayFromYear (1970 + k) \<le> 365 * k"
proof (induction k rule: int_le_induct)
  case base
  show ?case by (simp add: DayFromYear_1970)
next
  case (step i)
  have "DayFromYear (1970 + i) = DayFromYear (1970 + (i - 1)) + DaysInYear (1970 + (i - 1))"
    using DayFromYear_step [of "1970 + (i - 1)"] by simp
  with step.IH DaysInYear_range [of "1970 + (i - 1)"] show ?case
    by auto
qed

lemma DayFromYear_less: "DayFromYear y < DayFromYear (y + 1)"
  using DayFromYear_step [of y] DaysInYear_range [of y] by auto

lemma DayFromYear_mono: "y \<le> z \<Longrightarrow> DayFromYear y \<le> DayFromYear z"
proof (induction z rule: int_ge_induct)
  case base
  show ?case by simp
next
  case (step i)
  with DayFromYear_less [of i] show ?case by simp
qed

lemma year_unique:
  assumes "DayFromYear y \<le> d" "d < DayFromYear (y + 1)"
    and "DayFromYear z \<le> d" "d < DayFromYear (z + 1)"
  shows "y = z"
proof (rule ccontr)
  assume "y \<noteq> z"
  then consider "y + 1 \<le> z" | "z + 1 \<le> y"
    by linarith
  then show False
  proof cases
    case 1
    from DayFromYear_mono [OF 1] assms show False by simp
  next
    case 2
    from DayFromYear_mono [OF 2] assms show False by simp
  qed
qed

lemma year_search_finds:
  "DayFromYear (y - int n) \<le> d \<Longrightarrow> d < DayFromYear (y + 1) \<Longrightarrow>
   DayFromYear (year_search n y d) \<le> d \<and> d < DayFromYear (year_search n y d + 1)"
proof (induction n arbitrary: y)
  case 0
  then show ?case by simp
next
  case (Suc n)
  show ?case
  proof (cases "DayFromYear y \<le> d")
    case True
    with Suc.prems show ?thesis by simp
  next
    case False
    then have up: "d < DayFromYear ((y - 1) + 1)" by simp
    from Suc.prems(1) have low: "DayFromYear ((y - 1) - int n) \<le> d"
      by (simp add: algebra_simps)
    from Suc.IH [OF low up] False show ?thesis by simp
  qed
qed

lemma div_mult_bounds:
  fixes d n :: int
  assumes "0 < n"
  shows "n * (d div n) \<le> d" and "d < n * (d div n) + n"
proof -
  have e: "n * (d div n) + d mod n = d"
    by simp
  have r: "0 \<le> d mod n" "d mod n < n"
    using assms by simp_all
  from e r show "n * (d div n) \<le> d"
    by linarith
  from e r show "d < n * (d div n) + n"
    by linarith
qed

lemma search_range:
  fixes a b d :: int
  assumes a: "365 * a \<le> d" "d < 365 * a + 365" and b: "366 * b \<le> d" "d < 366 * b + 366"
  shows "DayFromYear (1970 + min a b) \<le> d \<and> d < DayFromYear (1970 + max a b + 1)"
proof (cases "0 \<le> d")
  case True
  with a b have s: "0 \<le> b" "b \<le> a" "0 \<le> a + 1"
    by linarith+
  have "DayFromYear (1970 + b) \<le> 366 * b"
    using DayFromYear_bounds_pos [OF s(1)] by blast
  moreover have "365 * a + 365 \<le> DayFromYear (1970 + (a + 1))"
    using DayFromYear_bounds_pos [OF s(3)] by (simp add: distrib_left)
  moreover have "1970 + max a b + 1 = 1970 + (a + 1)" "1970 + min a b = 1970 + b"
    using s by simp_all
  ultimately show ?thesis
    using a b by (simp only:) (intro conjI; linarith)
next
  case False
  with a b have s: "b + 1 \<le> 0" "a \<le> b" "a \<le> 0"
    by linarith+
  have "DayFromYear (1970 + a) \<le> 365 * a"
    using DayFromYear_bounds_neg [OF s(3)] by blast
  moreover have "366 * b + 366 \<le> DayFromYear (1970 + (b + 1))"
    using DayFromYear_bounds_neg [OF s(1)] by (simp add: distrib_left)
  moreover have "1970 + max a b + 1 = 1970 + (b + 1)" "1970 + min a b = 1970 + a"
    using s by simp_all
  ultimately show ?thesis
    using a b by (simp only:) (intro conjI; linarith)
qed

lemma YearFromDay_bounds:
  "DayFromYear (YearFromDay d) \<le> d \<and> d < DayFromYear (YearFromDay d + 1)"
proof -
  let ?a = "d div 365"
  let ?b = "d div 366"
  let ?hi = "1970 + max ?a ?b"
  let ?n = "nat (max ?a ?b - min ?a ?b)"
  have r: "DayFromYear (1970 + min ?a ?b) \<le> d \<and> d < DayFromYear (?hi + 1)"
    by (rule search_range) (use div_mult_bounds [of 365 d] div_mult_bounds [of 366 d] in simp_all)
  from r have r1: "DayFromYear (1970 + min ?a ?b) \<le> d" and r2: "d < DayFromYear (?hi + 1)"
    by blast+
  have eq: "?hi - int ?n = 1970 + min ?a ?b"
    by simp
  have "DayFromYear (?hi - int ?n) \<le> d"
    unfolding eq by (rule r1)
  then have "DayFromYear (year_search ?n ?hi d) \<le> d \<and>
      d < DayFromYear (year_search ?n ?hi d + 1)"
    using r2 by (rule year_search_finds)
  moreover have "YearFromDay d = year_search ?n ?hi d"
    by (simp add: YearFromDay_def Let_def)
  ultimately show ?thesis
    by simp
qed

lemma YearFromDay_eq:
  "DayFromYear y \<le> d \<Longrightarrow> d < DayFromYear (y + 1) \<Longrightarrow> YearFromDay d = y"
  using YearFromDay_bounds [of d] by (blast intro: year_unique)

lemma YearFromTime_bounds:
  "TimeFromYear (YearFromTime t) \<le> t \<and> t < TimeFromYear (YearFromTime t + 1)"
proof -
  let ?y = "YearFromTime t"
  let ?D = "t div msPerDay"
  have m: "0 < msPerDay" "0 \<le> msPerDay"
    by (simp_all add: msPerDay_def)
  have le: "DayFromYear ?y \<le> ?D" and "?D < DayFromYear (?y + 1)"
    using YearFromDay_bounds [of ?D] by (simp_all add: YearFromTime_def)
  then have up: "?D + 1 \<le> DayFromYear (?y + 1)"
    by simp
  have 1: "msPerDay * DayFromYear ?y \<le> msPerDay * ?D"
    by (rule mult_left_mono [OF le m(2)])
  have "msPerDay * (?D + 1) \<le> msPerDay * DayFromYear (?y + 1)"
    by (rule mult_left_mono [OF up m(2)])
  then have 2: "msPerDay * ?D + msPerDay \<le> msPerDay * DayFromYear (?y + 1)"
    by (simp only: distrib_left mult_1_right)
  from 1 2 div_mult_bounds [OF m(1), of t] show ?thesis
    unfolding TimeFromYear_def by linarith
qed

lemma MakeTime_range:
  "h \<le> 23 \<Longrightarrow> mi \<le> 59 \<Longrightarrow> sec \<le> 59 \<Longrightarrow> ms \<le> 999 \<Longrightarrow>
   0 \<le> MakeTime h mi sec ms \<and> MakeTime h mi sec ms < msPerDay"
  by (simp add: MakeTime_def msPerDay_def)

lemma MakeDay_in_year:
  assumes "1 \<le> m" "m \<le> 12" "1 \<le> d" "d \<le> DaysInMonth y m"
  shows "DayFromYear y \<le> MakeDay y m d \<and> MakeDay y m d < DayFromYear (y + 1)"
proof -
  from assms(1,2) consider "m = 1" | "m = 2" | "m = 3" | "m = 4" | "m = 5" | "m = 6"
    | "m = 7" | "m = 8" | "m = 9" | "m = 10" | "m = 11" | "m = 12"
    by atomize_elim arith
  then have "int (DaysBeforeMonth y m) + int d - 1 < DaysInYear y"
    using assms(3,4)
    by cases (simp_all add: DaysBeforeMonth_def DaysInMonth_def DaysInYear_def split: if_splits)
  with assms(3) show ?thesis
    by (simp add: MakeDay_def DayFromYear_step)
qed

lemma YearFromTime_fields:
  assumes "legal f"
  shows "YearFromTime (fields_time f) = int (df_year f)"
proof -
  let ?D = "MakeDay (int (df_year f)) (df_month f) (df_day f)"
  let ?r = "MakeTime (df_hour f) (df_minute f) (df_second f) (df_ms f)"
  from assms have r: "0 \<le> ?r" "?r < msPerDay"
    using MakeTime_range [of "df_hour f" "df_minute f" "df_second f" "df_ms f"]
    by (simp_all add: legal_def)
  have e: "fields_time f = msPerDay * ?D + ?r"
    by (simp add: fields_time_def)
  have d: "fields_time f div msPerDay = ?D"
    by (rule int_div_pos_eq [OF e r])
  from assms have "DayFromYear (int (df_year f)) \<le> ?D \<and> ?D < DayFromYear (int (df_year f) + 1)"
    by (intro MakeDay_in_year) (simp_all add: legal_def)
  then show ?thesis
    by (simp add: YearFromTime_def d YearFromDay_eq)
qed

text \<open>The decimal text of a natural number consists of digits and reads back as the number.\<close>

lemma digit_value_digit_char: "d < 10 \<Longrightarrow> digit_value (digit_char d) = Some d"
proof -
  assume "d < 10"
  then consider "d = 0" | "d = 1" | "d = 2" | "d = 3" | "d = 4" | "d = 5" | "d = 6"
    | "d = 7" | "d = 8" | "d = 9"
    by atomize_elim arith
  then show ?thesis
    by cases (simp_all add: digit_value_def digit_char_def)
qed

lemma digits_value_snoc:
  "digits_value (ds @ [c]) =
     10 * digits_value ds + (case digit_value c of Some v \<Rightarrow> v | None \<Rightarrow> 0)"
  by (simp add: digits_value_def)

lemma digits_value_str_nat: "digits_value (str_nat n) = n"
proof (induction n rule: str_nat.induct)
  case (1 n)
  show ?case
  proof (cases "n < 10")
    case True
    then show ?thesis
      by (subst str_nat.simps) (simp add: digits_value_def digit_value_digit_char)
  next
    case False
    with "1.IH" have "digits_value (str_nat (n div 10)) = n div 10"
      by simp
    with False show ?thesis
      by (subst str_nat.simps) (simp add: digits_value_snoc digit_value_digit_char)
  qed
qed

lemma str_nat_digits: "list_all is_digit (str_nat n)"
proof (induction n rule: str_nat.induct)
  case (1 n)
  show ?case
  proof (cases "n < 10")
    case True
    then show ?thesis
      by (subst str_nat.simps) (simp add: is_digit_def digit_value_digit_char)
  next
    case False
    with "1.IH" have "list_all is_digit (str_nat (n div 10))"
      by simp
    with False show ?thesis
      by (subst str_nat.simps) (simp add: is_digit_def digit_value_digit_char)
  qed
qed

text \<open>
  C9, as the client has it. The citation is the template of the spec with the authors joined
  by a comma and a space, but the year in it is read off the clock of the browser: the
  submission date is parsed to an instant, and the year printed is the calendar year that
  holds the local time of that instant in the browser's time zone, \<^verbatim>\<open>NaN\<close> when the date
  does not parse. A date in the date-time format is read as the format prescribes, a date
  alone as UTC and a date with a time and no offset as local time; when the local time of the
  instant is the time the string spells, the year printed is the year the string spells. A
  year that is a safe integer and not negative is printed in decimal digits. An absent doi
  prints as \<^verbatim>\<open>undefined\<close> and a null one as \<^verbatim>\<open>null\<close>. In one browser the citation
  depends on the authors, the date, the title and the doi of the paper alone.
\<close>

theorem generateCitation_local_year:
  "generateCitation env m =
     joined_by '', '' (authors m) @ ''. ('' @
     str_number env (getFullYear env (Date_value env (submission_date m))) @ ''). '' @
     title m @ ''. '' @ journal_name @ ''. DOI: '' @ str_jstring (doi m) \<and>
   (Date_value env (submission_date m) = None \<longrightarrow>
      str_number env (getFullYear env (Date_value env (submission_date m))) = ''NaN'') \<and>
   (\<forall>t. Date_value env (submission_date m) = Some t \<longrightarrow>
      (\<exists>y. getFullYear env (Date_value env (submission_date m)) = Some y \<and>
           TimeFromYear y \<le> t + LocalTZA env t True \<and>
           t + LocalTZA env t True < TimeFromYear (y + 1))) \<and>
   (\<forall>f. iso_fields (submission_date m) = Some f \<and> legal f \<longrightarrow>
      Date_value env (submission_date m) =
        TimeClip (fields_time f -
          (case df_zone f of
             Some off \<Rightarrow> off * 60000
           | None \<Rightarrow> LocalTZA env (fields_time f) False))) \<and>
   (\<forall>f t. iso_fields (submission_date m) = Some f \<and> legal f \<and>
          Date_value env (submission_date m) = Some t \<and>
          t + LocalTZA env t True = fields_time f \<longrightarrow>
      getFullYear env (Date_value env (submission_date m)) = Some (int (df_year f))) \<and>
   (\<forall>n. safe_integer (int n) \<longrightarrow>
      str_number env (Some (int n)) = str_nat n \<and> list_all is_digit (str_nat n) \<and>
      digits_value (str_nat n) = n) \<and>
   str_jstring Undefined = ''undefined'' \<and> str_jstring Null = ''null'' \<and>
   (\<forall>m'. authors m = authors m' \<and> submission_date m = submission_date m' \<and>
         title m = title m' \<and> doi m = doi m' \<longrightarrow>
      generateCitation env m = generateCitation env m')"
proof -
  let ?tv = "Date_value env (submission_date m)"
  have template: "generateCitation env m =
     joined_by '', '' (authors m) @ ''. ('' @ str_number env (getFullYear env ?tv) @ ''). '' @
     title m @ ''. '' @ journal_name @ ''. DOI: '' @ str_jstring (doi m)"
    by (simp add: generateCitation_def journal_name_def join_joined_by)
  have nan: "?tv = None \<longrightarrow> str_number env (getFullYear env ?tv) = ''NaN''"
    by (simp add: getFullYear_def str_number_def)
  have year: "\<forall>t. ?tv = Some t \<longrightarrow>
      (\<exists>y. getFullYear env ?tv = Some y \<and> TimeFromYear y \<le> t + LocalTZA env t True \<and>
           t + LocalTZA env t True < TimeFromYear (y + 1))"
    using YearFromTime_bounds by (simp add: getFullYear_def)
  have parsed: "\<forall>f. iso_fields (submission_date m) = Some f \<and> legal f \<longrightarrow>
      ?tv = TimeClip (fields_time f -
          (case df_zone f of
             Some off \<Rightarrow> off * 60000
           | None \<Rightarrow> LocalTZA env (fields_time f) False))"
    by (auto simp: Date_value_def Date_parse_def split: option.splits)
  have spelled: "\<forall>f t. iso_fields (submission_date m) = Some f \<and> legal f \<and> ?tv = Some t \<and>
          t + LocalTZA env t True = fields_time f \<longrightarrow>
      getFullYear env ?tv = Some (int (df_year f))"
    by (simp add: getFullYear_def YearFromTime_fields)
  have decimal: "\<forall>n. safe_integer (int n) \<longrightarrow>
      str_number env (Some (int n)) = str_nat n \<and> list_all is_digit (str_nat n) \<and>
      digits_value (str_nat n) = n"
    by (simp add: str_number_def str_nat_digits digits_value_str_nat)
  have doi_text: "str_jstring Undefined = ''undefined''" "str_jstring Null = ''null''"
    by simp_all
  have same: "\<forall>m'. authors m = authors m' \<and> submission_date m = submission_date m' \<and>
         title m = title m' \<and> doi m = doi m' \<longrightarrow>
      generateCitation env m = generateCitation env m'"
    by (simp add: generateCitation_def)
  from template nan year parsed spelled decimal doi_text same show ?thesis
    by (intro conjI)
qed

theorem generateCitation_local_year_witness:
  "generateCitation (browser_at (- 240)) paper_a =
     ''Ana Rojas, Luis Soto. (2024). Ondas. La Revista Nacional de las Ciencias para Estudiantes. DOI: 10.1234/rnce.1'' \<and>
   Date_value (browser_at (- 240)) (submission_date paper_a) = Some 1715954400000 \<and>
   getFullYear (browser_at (- 240)) (Date_value (browser_at (- 240)) (submission_date paper_a)) =
     Some 2024 \<and>
   TimeFromYear 2024 \<le> 1715954400000 + LocalTZA (browser_at (- 240)) 1715954400000 True \<and>
   1715954400000 + LocalTZA (browser_at (- 240)) 1715954400000 True < TimeFromYear (2024 + 1) \<and>
   iso_fields (submission_date paper_a) =
     Some \<lparr>df_year = 2024, df_month = 5, df_day = 17, df_hour = 10, df_minute = 0,
           df_second = 0, df_ms = 0, df_zone = None\<rparr> \<and>
   safe_integer (int 2024) \<and>
   str_number (browser_at (- 240)) (Some (int 2024)) = ''2024'' \<and>
   generateCitation (browser_at (- 240)) paper_a =
     generateCitation (browser_at (- 240)) (paper_a\<lparr>institution := ''Liceo 1''\<rparr>) \<and>
   Date_value (browser_at (- 240)) (submission_date (paper_a\<lparr>submission_date := ''ayer''\<rparr>)) =
     None \<and>
   generateCitation (browser_at (- 240)) (paper_a\<lparr>submission_date := ''ayer''\<rparr>) =
     ''Ana Rojas, Luis Soto. (NaN). Ondas. La Revista Nacional de las Ciencias para Estudiantes. DOI: 10.1234/rnce.1''"
proof -
  let ?env = "browser_at (- 240)"
  let ?f = "\<lparr>df_year = 2024, df_month = 5, df_day = 17, df_hour = 10, df_minute = 0,
           df_second = 0, df_ms = 0, df_zone = None\<rparr>"
  let ?m' = "paper_a\<lparr>institution := ''Liceo 1''\<rparr>"
  note t = generateCitation_local_year [of ?env paper_a]
  have iso: "iso_fields (submission_date paper_a) = Some ?f"
    by code_simp
  have leg: "legal ?f"
    by code_simp
  have zone: "LocalTZA ?env t u = - 14400000" for t u
    by (simp add: browser_at_def)
  have ft: "fields_time ?f = 1715940000000"
    by code_simp
  from t iso leg have "Date_value ?env (submission_date paper_a) =
        TimeClip (fields_time ?f -
          (case df_zone ?f of
             Some off \<Rightarrow> off * 60000
           | None \<Rightarrow> LocalTZA ?env (fields_time ?f) False))"
    by blast
  then have tv: "Date_value ?env (submission_date paper_a) = Some 1715954400000"
    by (simp add: zone ft TimeClip_def)
  have loc: "1715954400000 + LocalTZA ?env 1715954400000 True = fields_time ?f"
    by (simp add: zone ft)
  from t iso leg tv loc
  have yr: "getFullYear ?env (Date_value ?env (submission_date paper_a)) = Some (int (df_year ?f))"
    by blast
  then have yr': "getFullYear ?env (Date_value ?env (submission_date paper_a)) = Some 2024"
    by simp
  from t tv obtain y where "getFullYear ?env (Date_value ?env (submission_date paper_a)) = Some y"
    and b: "TimeFromYear y \<le> 1715954400000 + LocalTZA ?env 1715954400000 True"
      "1715954400000 + LocalTZA ?env 1715954400000 True < TimeFromYear (y + 1)"
    by blast
  with yr' have y: "y = 2024"
    by simp
  have safe: "safe_integer (int 2024)"
    by (simp add: safe_integer_def)
  with t have "str_number ?env (Some (int 2024)) = str_nat 2024"
    by blast
  moreover have "str_nat 2024 = ''2024''"
    by code_simp
  ultimately have txt2024: "str_number ?env (Some (int 2024)) = ''2024''"
    by simp
  from t have "generateCitation ?env paper_a =
     joined_by '', '' (authors paper_a) @ ''. ('' @
     str_number ?env (getFullYear ?env (Date_value ?env (submission_date paper_a))) @ ''). '' @
     title paper_a @ ''. '' @ journal_name @ ''. DOI: '' @ str_jstring (doi paper_a)"
    by blast
  with yr' txt2024 have cit: "generateCitation ?env paper_a =
     ''Ana Rojas, Luis Soto. (2024). Ondas. La Revista Nacional de las Ciencias para Estudiantes. DOI: 10.1234/rnce.1''"
    by (simp add: paper_a_def journal_name_def)
  have "authors paper_a = authors ?m' \<and> submission_date paper_a = submission_date ?m' \<and>
      title paper_a = title ?m' \<and> doi paper_a = doi ?m'"
    by simp
  with t have same: "generateCitation ?env paper_a = generateCitation ?env ?m'"
    by blast
  let ?n = "paper_a\<lparr>submission_date := ''ayer''\<rparr>"
  note u = generateCitation_local_year [of ?env ?n]
  have none: "Date_value ?env (submission_date ?n) = None"
    by code_simp
  with u have "str_number ?env (getFullYear ?env (Date_value ?env (submission_date ?n))) = ''NaN''"
    by blast
  moreover from u have "generateCitation ?env ?n =
     joined_by '', '' (authors ?n) @ ''. ('' @
     str_number ?env (getFullYear ?env (Date_value ?env (submission_date ?n))) @ ''). '' @
     title ?n @ ''. '' @ journal_name @ ''. DOI: '' @ str_jstring (doi ?n)"
    by blast
  ultimately have nan: "generateCitation ?env ?n =
     ''Ana Rojas, Luis Soto. (NaN). Ondas. La Revista Nacional de las Ciencias para Estudiantes. DOI: 10.1234/rnce.1''"
    by (simp add: paper_a_def journal_name_def)
  from cit tv yr' b [unfolded y] iso safe txt2024 same none nan show ?thesis
    by (intro conjI)
qed

text \<open>The same paper, submitted half an hour after the start of 2024 in UTC, is cited with
  the year 2023 by a browser three hours behind UTC and with the year 2024 by a browser on
  UTC.\<close>

theorem citation_year_depends_on_zone_counterexample:
  "submission_date paper_z = ''2024-01-01T00:30:00Z'' \<and>
   generateCitation (browser_at (- 180)) paper_z =
     ''Eva Mora. (2023). Mareas. La Revista Nacional de las Ciencias para Estudiantes. DOI: 10.1234/rnce.9'' \<and>
   generateCitation (browser_at 0) paper_z =
     ''Eva Mora. (2024). Mareas. La Revista Nacional de las Ciencias para Estudiantes. DOI: 10.1234/rnce.9''"
  by code_simp

section \<open>Review of a manuscript\<close>

lemma filter_remove_unique:
  assumes "distinct (map f (xs @ p # ys))"
  shows "filter (\<lambda>q. f q \<noteq> f p) (xs @ p # ys) = xs @ ys"
proof -
  from assms have out: "f p \<notin> f ` set xs" "f p \<notin> f ` set ys"
    by simp_all
  have "f q \<noteq> f p" if "q \<in> set xs" for q
    using out(1) that by (metis imageI)
  moreover have "f q \<noteq> f p" if "q \<in> set ys" for q
    using out(2) that by (metis imageI)
  ultimately have "filter (\<lambda>q. f q \<noteq> f p) xs = xs" and "filter (\<lambda>q. f q \<noteq> f p) ys = ys"
    by (simp_all add: filter_id_conv)
  then show ?thesis by simp
qed

text \<open>A review clicked on the page of the current state drops the entries with that id from
  the list, and where the ids are distinct exactly the one entry.\<close>

lemma handleReview_current_render:
  assumes "comments paperId = Some c"
    and "post_review srv (bearer (str_null (token st))) paperId action c = Inr ()"
  shows "handleReview srv comments st (d_papers db) db paperId action =
           (Inr (), db\<lparr>d_papers := filter (\<lambda>p. paper_id p \<noteq> paperId) (d_papers db)\<rparr>,
            [Request ''POST'' (''/review/'' @ paperId) (Some (bearer (str_null (token st))))
               [(''action'', action), (''comment'', c)]], []) \<and>
         (\<forall>xs p ys. d_papers db = xs @ p # ys \<and> paper_id p = paperId \<and>
            distinct (map paper_id (d_papers db)) \<longrightarrow>
            filter (\<lambda>p. paper_id p \<noteq> paperId) (d_papers db) = xs @ ys)"
proof -
  have run: "handleReview srv comments st (d_papers db) db paperId action =
           (Inr (), db\<lparr>d_papers := filter (\<lambda>p. paper_id p \<noteq> paperId) (d_papers db)\<rparr>,
            [Request ''POST'' (''/review/'' @ paperId) (Some (bearer (str_null (token st))))
               [(''action'', action), (''comment'', c)]], [])"
    using assms by (simp add: handleReview_def)
  have rest: "\<forall>xs p ys. d_papers db = xs @ p # ys \<and> paper_id p = paperId \<and>
             distinct (map paper_id (d_papers db)) \<longrightarrow>
             filter (\<lambda>p. paper_id p \<noteq> paperId) (d_papers db) = xs @ ys"
  proof (intro allI impI)
    fix xs p ys
    assume h: "d_papers db = xs @ p # ys \<and> paper_id p = paperId \<and>
             distinct (map paper_id (d_papers db))"
    then have eq: "d_papers db = xs @ p # ys" and pid: "paper_id p = paperId"
      and "distinct (map paper_id (d_papers db))"
      by blast+
    then have d: "distinct (map paper_id (xs @ p # ys))"
      by simp
    have "filter (\<lambda>q. paper_id q \<noteq> paper_id p) (xs @ p # ys) = xs @ ys"
      by (rule filter_remove_unique [OF d])
    with eq pid show "filter (\<lambda>p. paper_id p \<noteq> paperId) (d_papers db) = xs @ ys"
      by simp
  qed
  from run rest show ?thesis
    by blast
qed

text \<open>
  C10: the list a successful review leaves is the list of the render that made the button
  without the reviewed paper, not the list of the state without it. An admin sees the pending
  papers \<^verbatim>\<open>b2\<close> and \<^verbatim>\<open>c4\<close> and clicks a review button of each before the first request is
  answered. The first answer leaves \<^verbatim>\<open>c4\<close> alone in the list; the second answer, to the
  review of \<^verbatim>\<open>c4\<close>, leaves \<^verbatim>\<open>b2\<close> alone: the paper just reviewed is gone, and the
  paper reviewed before it is back in the list of pending papers.
\<close>

theorem second_review_restores_first:
  "AdminDashboard (user admin_session) two_pending =
     Console_page [paper_card paper_b, paper_card paper_c] [application_card application_c] \<and>
   click sample_server (\<lambda>i. Some ''ok'') admin_session two_pending
       (ReviewButton ''b2'' ''approved'') two_pending =
     Some (Inr (), two_pending\<lparr>d_papers := [paper_c]\<rparr>,
           [Request ''POST'' ''/review/b2'' (Some ''Bearer t0k'')
              [(''action'', ''approved''), (''comment'', ''ok'')]], []) \<and>
   click sample_server (\<lambda>i. Some ''ok'') admin_session two_pending
       (ReviewButton ''c4'' ''rejected'') (two_pending\<lparr>d_papers := [paper_c]\<rparr>) =
     Some (Inr (), two_pending\<lparr>d_papers := [paper_b]\<rparr>,
           [Request ''POST'' ''/review/c4'' (Some ''Bearer t0k'')
              [(''action'', ''rejected''), (''comment'', ''ok'')]], [])"
  by (simp add: click_def controls_def AdminDashboard_def redirect_guard_def handleReview_def
      paper_card_def application_card_def admin_session_def two_pending_def ana_def
      property_def sample_server_def bearer_def str_null_def paper_b_def paper_c_def)

text \<open>C2, as the client has it: for a user that is absent or whose role is neither admin nor
  super_admin the dashboard renders nothing but the redirect to \<^verbatim>\<open>/login\<close>. The page has
  no control, so no click runs \<open>handleReview\<close>, and the mount effect sends no request. No
  error is raised: the outcome is the redirect.\<close>

theorem non_admin_redirected:
  "\<not> admin_role (user st) \<Longrightarrow>
     AdminDashboard (user st) db = Navigate ''/login'' \<and>
     controls (AdminDashboard (user st) db) = [] \<and>
     (\<forall>c db'. click srv comments st db c db' = None) \<and>
     AdminDashboard_effect srv st db = (db, [], [])"
  by (auto simp: admin_role_def opt_role_def AdminDashboard_def AdminDashboard_effect_def
      redirect_guard_def effect_guard_def click_def controls_def split: option.splits)

theorem non_admin_redirected_witness:
  "\<not> admin_role (user \<lparr>user = Some luis, loading = False, token = Some ''t1''\<rparr>) \<and>
   AdminDashboard (user \<lparr>user = Some luis, loading = False, token = Some ''t1''\<rparr>)
     initial_dashboard = Navigate ''/login'' \<and>
   controls (AdminDashboard (user \<lparr>user = Some luis, loading = False, token = Some ''t1''\<rparr>)
     initial_dashboard) = [] \<and>
   click sample_server (\<lambda>i. Some ''ok'') \<lparr>user = Some luis, loading = False, token = Some ''t1''\<rparr>
     initial_dashboard (ReviewButton ''b2'' ''approved'') initial_dashboard = None \<and>
   AdminDashboard_effect sample_server \<lparr>user = Some luis, loading = False, token = Some ''t1''\<rparr>
     initial_dashboard = (initial_dashboard, [], [])"
proof -
  let ?st = "\<lparr>user = Some luis, loading = False, token = Some ''t1''\<rparr>"
  have a: "\<not> admin_role (user ?st)"
    by (simp add: admin_role_def opt_role_def property_def luis_def)
  from non_admin_redirected [OF a, of initial_dashboard sample_server "\<lambda>i. Some ''ok''"] a
  show ?thesis
    by blast
qed

text \<open>With no user in the session the dashboard is the redirect: a review button is not there
  to be clicked, nothing is sent and no error comes back.\<close>

theorem anonymous_redirect_counterexample:
  "user (initial_session None) = None \<and>
   AdminDashboard (user (initial_session None)) initial_dashboard = Navigate ''/login'' \<and>
   controls (AdminDashboard (user (initial_session None)) initial_dashboard) = [] \<and>
   click sample_server (\<lambda>i. Some ''ok'') (initial_session None) initial_dashboard
     (ReviewButton ''b2'' ''approved'') initial_dashboard = None \<and>
   AdminDashboard_effect sample_server (initial_session None) initial_dashboard =
     (initial_dashboard, [], [])"
  by (simp add: initial_session_def AdminDashboard_def redirect_guard_def controls_def
      click_def AdminDashboard_effect_def effect_guard_def)

section \<open>Failures of the collaborator\<close>

text \<open>
  C5, as the client has it. A failure of the request \<^verbatim>\<open>POST /token\<close> of a login, of
  \<^verbatim>\<open>POST /register\<close> or of \<^verbatim>\<open>POST /submit-paper\<close> is shown on the page: the message is a
  fixed prefix and the detail the server sent or else the transport's message, and nothing
  else changes. A failure of \<^verbatim>\<open>POST /review\<close>, of \<^verbatim>\<open>GET /papers\<close> in the catalogue or
  in the dashboard, or of \<^verbatim>\<open>GET /admin/applications\<close> is caught and written to the console;
  the operation completes and the lists stay as they were. When the validation of the stored
  token fails at the start, the token is removed and the user stays absent.
\<close>

theorem failures_shown_or_logged:
  "(post_token srv (lf_email lf) (lf_password lf) = Inl e \<longrightarrow>
      Login_handleSubmit srv True lf st =
        (\<lparr>isLogin = True, lp_message = ''Error: '' @ error_text e, lp_loading = False,
          lp_navigate = None\<rparr>, st,
         [Request ''POST'' ''/token'' None
            [(''username'', lf_email lf), (''password'', lf_password lf)]])) \<and>
   (post_register srv (login_userData lf) = Inl e \<longrightarrow>
      Login_handleSubmit srv False lf st =
        (\<lparr>isLogin = False, lp_message = ''Error: '' @ error_text e, lp_loading = False,
          lp_navigate = None\<rparr>, st,
         [Request ''POST'' ''/register'' None (login_userData lf)])) \<and>
   (post_submit_paper srv (submitData env fd) = Inl e \<longrightarrow>
      handleSubmit env srv fd =
        (\<lparr>sp_loading = False, sp_message = ''Error al enviar el paper: '' @ error_text e,
          sp_navigate = None\<rparr>,
         [Request ''POST'' ''/submit-paper'' None (submitData env fd)])) \<and>
   (comments paperId = Some c \<and>
    post_review srv (bearer (str_null (token st))) paperId action c = Inl e \<longrightarrow>
      handleReview srv comments st papers db paperId action =
        (Inr (), db,
         [Request ''POST'' (''/review/'' @ paperId) (Some (bearer (str_null (token st))))
            [(''action'', action), (''comment'', c)]],
         [(''Error reviewing paper:'', e)])) \<and>
   (get_papers srv (search_params f) None = Inl e \<longrightarrow>
      fetchPapers srv f pg =
        (pg\<lparr>pp_loading := False\<rparr>, [Request ''GET'' ''/papers'' None (search_params f)],
         [(''Error fetching papers:'', e)])) \<and>
   (get_papers srv [(''status'', ''pending'')] (Some (bearer (str_null (token st)))) = Inl e \<longrightarrow>
      fetchPendingPapers srv st db =
        (db, [Request ''GET'' ''/papers'' (Some (bearer (str_null (token st))))
                [(''status'', ''pending'')]],
         [(''Error fetching papers:'', e)])) \<and>
   (get_applications srv (bearer (str_null (token st))) = Inl e \<longrightarrow>
      fetchApplications srv st db =
        (db\<lparr>d_loading := False\<rparr>,
         [Request ''GET'' ''/admin/applications'' (Some (bearer (str_null (token st)))) []],
         [(''Error fetching applications:'', e)])) \<and>
   (token st = Some t \<and> t \<noteq> [] \<and> user st = None \<and>
    get_current_user srv (bearer t) = Inl e \<longrightarrow>
      restore srv st =
        (\<lparr>user = None, loading = False, token = None\<rparr>,
         [Request ''GET'' ''/current_user'' (Some (bearer t)) []]))"
  by (simp add: Login_handleSubmit_def login_def register_def handleSubmit_def handleReview_def
      fetchPapers_def fetchPendingPapers_def fetchApplications_def restore_def
      fetchCurrentUser_def)

theorem failures_shown_or_logged_witness:
  "post_token unreachable_server ''ana@uc.cl'' ''clave'' = Inl network_error \<and>
   post_register unreachable_server
     [(''email'', ''ana@uc.cl''), (''password'', ''clave''), (''name'', ''Ana''),
      (''institution'', ''Penta UC''), (''study_area'', ''Fisica'')] = Inl network_error \<and>
   post_submit_paper unreachable_server (submitData (browser_at 0) sample_form) =
     Inl network_error \<and>
   post_review unreachable_server ''Bearer t0k'' ''b2'' ''approved'' ''ok'' = Inl network_error \<and>
   get_papers unreachable_server [] None = Inl network_error \<and>
   get_papers unreachable_server [(''status'', ''pending'')] (Some ''Bearer t0k'') =
     Inl network_error \<and>
   get_applications unreachable_server ''Bearer t0k'' = Inl network_error \<and>
   get_current_user unreachable_server ''Bearer t0k'' = Inl network_error \<and>
   lp_message (fst (Login_handleSubmit unreachable_server True
       \<lparr>lf_email = ''ana@uc.cl'', lf_password = ''clave'', lf_name = ''Ana'',
        lf_institution = ''Penta UC'', lf_study_area = ''Fisica''\<rparr>
       \<lparr>user = None, loading = False, token = None\<rparr>)) = ''Error: Network Error'' \<and>
   lp_message (fst (Login_handleSubmit unreachable_server False
       \<lparr>lf_email = ''ana@uc.cl'', lf_password = ''clave'', lf_name = ''Ana'',
        lf_institution = ''Penta UC'', lf_study_area = ''Fisica''\<rparr>
       \<lparr>user = None, loading = False, token = None\<rparr>)) = ''Error: Network Error'' \<and>
   sp_message (fst (handleSubmit (browser_at 0) unreachable_server sample_form)) =
     ''Error al enviar el paper: Network Error'' \<and>
   handleReview unreachable_server (\<lambda>i. Some ''ok'') admin_session (d_papers two_pending)
       two_pending ''b2'' ''approved'' =
     (Inr (), two_pending,
      [Request ''POST'' ''/review/b2'' (Some ''Bearer t0k'')
         [(''action'', ''approved''), (''comment'', ''ok'')]],
      [(''Error reviewing paper:'', network_error)]) \<and>
   fetchPapers unreachable_server \<lparr>flt_category = [], flt_author = [], flt_institution = []\<rparr>
       \<lparr>pp_papers = [paper_a], pp_loading = True\<rparr> =
     (\<lparr>pp_papers = [paper_a], pp_loading = False\<rparr>, [Request ''GET'' ''/papers'' None []],
      [(''Error fetching papers:'', network_error)]) \<and>
   fetchPendingPapers unreachable_server admin_session initial_dashboard =
     (initial_dashboard,
      [Request ''GET'' ''/papers'' (Some ''Bearer t0k'') [(''status'', ''pending'')]],
      [(''Error fetching papers:'', network_error)]) \<and>
   fetchApplications unreachable_server admin_session initial_dashboard =
     (initial_dashboard\<lparr>d_loading := False\<rparr>,
      [Request ''GET'' ''/admin/applications'' (Some ''Bearer t0k'') []],
      [(''Error fetching applications:'', network_error)]) \<and>
   restore unreachable_server (initial_session (Some ''t0k'')) =
     (\<lparr>user = None, loading = False, token = None\<rparr>,
      [Request ''GET'' ''/current_user'' (Some ''Bearer t0k'') []])"
proof -
  let ?lf = "\<lparr>lf_email = ''ana@uc.cl'', lf_password = ''clave'', lf_name = ''Ana'',
        lf_institution = ''Penta UC'', lf_study_area = ''Fisica''\<rparr>"
  let ?out = "\<lparr>user = None, loading = False, token = None\<rparr>"
  let ?f = "\<lparr>flt_category = [], flt_author = [], flt_institution = []\<rparr>"
  have msg: "error_text network_error = ''Network Error''"
    by (simp add: error_text_def network_error_def)
  have h: "bearer (str_null (token admin_session)) = ''Bearer t0k''"
    "bearer ''t0k'' = ''Bearer t0k''"
    by (simp_all add: bearer_def str_null_def admin_session_def)
  have q: "search_params ?f = []" "login_userData ?lf =
     [(''email'', ''ana@uc.cl''), (''password'', ''clave''), (''name'', ''Ana''),
      (''institution'', ''Penta UC''), (''study_area'', ''Fisica'')]"
    by (simp_all add: search_params_def login_userData_def)
  have down:
    "post_token unreachable_server (lf_email ?lf) (lf_password ?lf) = Inl network_error"
    "post_register unreachable_server (login_userData ?lf) = Inl network_error"
    "post_submit_paper unreachable_server (submitData (browser_at 0) sample_form) =
       Inl network_error"
    "(\<lambda>i::string. Some ''ok'') ''b2'' = Some ''ok'' \<and>
     post_review unreachable_server (bearer (str_null (token admin_session))) ''b2''
       ''approved'' ''ok'' = Inl network_error"
    "get_papers unreachable_server (search_params ?f) None = Inl network_error"
    "get_papers unreachable_server [(''status'', ''pending'')]
       (Some (bearer (str_null (token admin_session)))) = Inl network_error"
    "get_applications unreachable_server (bearer (str_null (token admin_session))) =
       Inl network_error"
    by (simp_all add: unreachable_server_def)
  have stale: "token (initial_session (Some ''t0k'')) = Some ''t0k'' \<and> ''t0k'' \<noteq> [] \<and>
     user (initial_session (Some ''t0k'')) = None \<and>
     get_current_user unreachable_server (bearer ''t0k'') = Inl network_error"
    by (simp add: initial_session_def unreachable_server_def)
  note t = failures_shown_or_logged [where srv = unreachable_server and e = network_error
      and lf = ?lf and fd = sample_form and env = "browser_at 0"
      and comments = "\<lambda>i. Some ''ok''" and paperId = "''b2''"
      and c = "''ok''" and action = "''approved''" and f = ?f]
  note ta = t [where st = admin_session and t = "''t0k''"]
  from t [where st = ?out] down(1)
  have a: "lp_message (fst (Login_handleSubmit unreachable_server True ?lf ?out)) =
      ''Error: '' @ error_text network_error"
    by simp
  from t [where st = ?out] down(2)
  have b: "lp_message (fst (Login_handleSubmit unreachable_server False ?lf ?out)) =
      ''Error: '' @ error_text network_error"
    by simp
  from ta down(3)
  have c: "sp_message (fst (handleSubmit (browser_at 0) unreachable_server sample_form)) =
     ''Error al enviar el paper: '' @ error_text network_error"
    by simp
  from ta [where papers = "d_papers two_pending" and db = two_pending] down(4)
  have d: "handleReview unreachable_server (\<lambda>i. Some ''ok'') admin_session (d_papers two_pending)
       two_pending ''b2'' ''approved'' =
     (Inr (), two_pending,
      [Request ''POST'' (''/review/'' @ ''b2'') (Some (bearer (str_null (token admin_session))))
         [(''action'', ''approved''), (''comment'', ''ok'')]],
      [(''Error reviewing paper:'', network_error)])"
    by blast
  from ta [where pg = "\<lparr>pp_papers = [paper_a], pp_loading = True\<rparr>"] down(5)
  have e: "fetchPapers unreachable_server ?f \<lparr>pp_papers = [paper_a], pp_loading = True\<rparr> =
     (\<lparr>pp_papers = [paper_a], pp_loading = True\<rparr>\<lparr>pp_loading := False\<rparr>,
      [Request ''GET'' ''/papers'' None (search_params ?f)],
      [(''Error fetching papers:'', network_error)])"
    by blast
  from ta [where db = initial_dashboard] down(6)
  have f: "fetchPendingPapers unreachable_server admin_session initial_dashboard =
     (initial_dashboard,
      [Request ''GET'' ''/papers'' (Some (bearer (str_null (token admin_session))))
         [(''status'', ''pending'')]],
      [(''Error fetching papers:'', network_error)])"
    by blast
  from ta [where db = initial_dashboard] down(7)
  have g: "fetchApplications unreachable_server admin_session initial_dashboard =
     (initial_dashboard\<lparr>d_loading := False\<rparr>,
      [Request ''GET'' ''/admin/applications'' (Some (bearer (str_null (token admin_session)))) []],
      [(''Error fetching applications:'', network_error)])"
    by blast
  from t [where st = "initial_session (Some ''t0k'')" and t = "''t0k''"] stale
  have r: "restore unreachable_server (initial_session (Some ''t0k'')) =
     (?out, [Request ''GET'' ''/current_user'' (Some (bearer ''t0k'')) []])"
    by blast
  from a b c d e f g r down stale msg h q show ?thesis
    by simp
qed

text \<open>With the collaborator out of reach, \<open>handleReview\<close> resolves and \<open>fetchPapers\<close>
  returns; the error is on the console only.\<close>

theorem decide_failure_swallowed_counterexample:
  "handleReview unreachable_server (\<lambda>i. Some ''ok'') admin_session (d_papers two_pending)
     two_pending ''b2'' ''approved'' =
   (Inr (), two_pending,
    [Request ''POST'' ''/review/b2'' (Some ''Bearer t0k'')
       [(''action'', ''approved''), (''comment'', ''ok'')]],
    [(''Error reviewing paper:'', network_error)]) \<and>
   fetchPapers unreachable_server \<lparr>flt_category = [], flt_author = [], flt_institution = []\<rparr>
     \<lparr>pp_papers = [], pp_loading = True\<rparr> =
   (\<lparr>pp_papers = [], pp_loading = False\<rparr>, [Request ''GET'' ''/papers'' None []],
    [(''Error fetching papers:'', network_error)])"
  by (simp add: handleReview_def fetchPapers_def unreachable_server_def bearer_def str_null_def
      search_params_def admin_session_def)

section \<open>Admin actions\<close>

lemma guards_agree:
  "effect_guard u = admin_role u" "redirect_guard u = (\<not> admin_role u)"
  "Header_admin_link u = admin_role u"
  by (auto simp: effect_guard_def redirect_guard_def Header_admin_link_def admin_role_def
      opt_role_def split: option.splits)

text \<open>C8, as the client has it: the console, the two lists and the review of a manuscript are
  open exactly to the roles admin and super_admin, and the two roles are treated alike for
  every action; deciding an application is open to no one. The same holds of what the
  components do: the header link, the redirect, the page with its cards, the requests of the
  mount effect, and the buttons on the cards.\<close>

theorem admin_actions_gate:
  "(a \<noteq> DecideApplication \<longrightarrow> admin_action_open u a = admin_role u) \<and>
   \<not> admin_action_open u DecideApplication \<and>
   (opt_role u = Some ''admin'' \<and> opt_role u' = Some ''super_admin'' \<longrightarrow>
      admin_action_open u a = admin_action_open u' a) \<and>
   Header_admin_link u = admin_role u \<and>
   (AdminDashboard u db = Navigate ''/login'') = (\<not> admin_role u) \<and>
   (admin_role u \<and> \<not> d_loading db \<longrightarrow>
      AdminDashboard u db =
        Console_page (map paper_card (d_papers db)) (map application_card (d_applications db))) \<and>
   fst (snd (AdminDashboard_effect srv st db)) =
     (if admin_role (user st)
      then [Request ''GET'' ''/papers'' (Some (bearer (str_null (token st)))) [(''status'', ''pending'')],
            Request ''GET'' ''/admin/applications'' (Some (bearer (str_null (token st)))) []]
      else []) \<and>
   filter is_review_button (snd (paper_card p)) =
     [ReviewButton (paper_id p) ''approved'', ReviewButton (paper_id p) ''rejected''] \<and>
   filter is_review_button (snd (application_card ap)) = []"
proof -
  have open_iff: "a \<noteq> DecideApplication \<longrightarrow> admin_action_open u a = admin_role u" for u a
    by (cases a) (simp_all add: admin_action_open_def guards_agree)
  have never: "\<not> admin_action_open u DecideApplication" for u
    by (simp add: admin_action_open_def)
  have equal: "admin_action_open u a = admin_action_open u' a"
    if "opt_role u = Some ''admin'' \<and> opt_role u' = Some ''super_admin''"
  proof -
    from that have "admin_role u" "admin_role u'"
      by (simp_all add: admin_role_def)
    then show ?thesis
      by (cases a) (simp_all add: admin_action_open_def guards_agree)
  qed
  have page: "(AdminDashboard u db = Navigate ''/login'') = (\<not> admin_role u)"
    by (simp add: AdminDashboard_def guards_agree)
  have console: "admin_role u \<and> \<not> d_loading db \<longrightarrow>
      AdminDashboard u db =
        Console_page (map paper_card (d_papers db)) (map application_card (d_applications db))"
    by (simp add: AdminDashboard_def guards_agree)
  have reqs: "fst (snd (AdminDashboard_effect srv st db)) =
     (if admin_role (user st)
      then [Request ''GET'' ''/papers'' (Some (bearer (str_null (token st)))) [(''status'', ''pending'')],
            Request ''GET'' ''/admin/applications'' (Some (bearer (str_null (token st)))) []]
      else [])"
    by (simp add: AdminDashboard_effect_def fetchPendingPapers_def fetchApplications_def
        guards_agree Let_def split: sum.splits prod.splits)
  have cards: "filter is_review_button (snd (paper_card p)) =
     [ReviewButton (paper_id p) ''approved'', ReviewButton (paper_id p) ''rejected'']"
    "filter is_review_button (snd (application_card ap)) = []"
    by (simp_all add: paper_card_def application_card_def)
  from open_iff never equal guards_agree(3) page console reqs cards show ?thesis
    by blast
qed

theorem admin_actions_gate_witness:
  "DecideManuscript \<noteq> DecideApplication \<and>
   opt_role (Some ana) = Some ''admin'' \<and>
   opt_role (Some [(''role'', ''super_admin'')]) = Some ''super_admin'' \<and>
   admin_role (Some ana) \<and>
   \<not> d_loading \<lparr>d_papers = [paper_b], d_applications = [application_c], d_loading = False\<rparr> \<and>
   admin_action_open (Some ana) DecideManuscript \<and>
   admin_action_open (Some [(''role'', ''super_admin'')]) DecideManuscript \<and>
   AdminDashboard (Some ana)
     \<lparr>d_papers = [paper_b], d_applications = [application_c], d_loading = False\<rparr> =
     Console_page [paper_card paper_b] [application_card application_c]"
proof -
  let ?u = "Some ana"
  let ?u' = "Some [(''role'', ''super_admin'')]"
  let ?db = "\<lparr>d_papers = [paper_b], d_applications = [application_c], d_loading = False\<rparr>"
  have r: "opt_role ?u = Some ''admin''" "opt_role ?u' = Some ''super_admin''"
    by (simp_all add: opt_role_def property_def ana_def)
  then have adm: "admin_role ?u"
    by (simp add: admin_role_def)
  have ne: "DecideManuscript \<noteq> DecideApplication"
    by simp
  have loaded: "\<not> d_loading ?db"
    by simp
  note t = admin_actions_gate [where a = DecideManuscript and u = ?u and u' = ?u' and db = ?db]
  from t ne adm have o: "admin_action_open ?u DecideManuscript"
    by blast
  from t r o have o': "admin_action_open ?u' DecideManuscript"
    by blast
  from t adm loaded have "AdminDashboard ?u ?db =
      Console_page (map paper_card (d_papers ?db)) (map application_card (d_applications ?db))"
    by blast
  with r adm ne loaded o o' show ?thesis
    by simp
qed

text \<open>An admin's console shows an application with two links and nothing that decides it.\<close>

theorem admin_actions_gate_counterexample:
  "admin_role (Some ana) \<and> \<not> admin_action_open (Some ana) DecideApplication \<and>
   AdminDashboard (Some ana) \<lparr>d_papers = [], d_applications = [application_c], d_loading = False\<rparr> =
     Console_page [] [(application_c, [Link ''/files/cv.pdf'', Link ''/files/cert.pdf''])]"
  by (simp add: admin_role_def opt_role_def property_def ana_def admin_action_open_def
      AdminDashboard_def redirect_guard_def application_card_def application_c_def)

section \<open>Workflow of the collaborator\<close>

lemma find_map_same_id:
  assumes "\<And>m. ms_id (g m) = ms_id m"
  shows "find (\<lambda>m. ms_id m = i) (map (\<lambda>m. if ms_id m = i then g m else m) ms) =
         map_option g (find (\<lambda>m. ms_id m = i) ms)"
  using assms by (induction ms) auto

lemma decided_id: "ms_id (decided assign d m) = ms_id m"
  by (cases d) (simp_all add: decided_def)

lemma decide_spec_terminal:
  assumes "find (\<lambda>m. ms_id m = i) ms = Some m" and "ms_status m \<noteq> Pending"
  shows "\<exists>e. decide_spec assign caller i d comment ms = Inl e \<and>
             (admin_role caller \<longrightarrow> e = E_InvalidStateTransition)"
  using assms by (simp add: decide_spec_def)

text \<open>C3: approving a pending manuscript succeeds and leaves it approved; after that no
  decision on the same id succeeds, whoever calls and whatever the action, and an admin's
  attempt fails with the invalid-transition error. The same error meets an admin's decision on
  any manuscript that is approved or rejected.\<close>

theorem decide_exactly_once:
  assumes "admin_role caller" and "find (\<lambda>m. ms_id m = i) ms = Some m"
    and "ms_status m = Pending"
  shows "(\<exists>ms'. decide_spec assign caller i Approve comment ms = Inr ms' \<and>
           map_option ms_status (find (\<lambda>m. ms_id m = i) ms') = Some Approved \<and>
           (\<forall>caller' d' comment'. \<exists>e.
              decide_spec assign caller' i d' comment' ms' = Inl e \<and>
              (admin_role caller' \<longrightarrow> e = E_InvalidStateTransition))) \<and>
         (\<forall>ms0 m0 caller' d' comment'.
           admin_role caller' \<and> find (\<lambda>m. ms_id m = i) ms0 = Some m0 \<and>
           (ms_status m0 = Approved \<or> ms_status m0 = Rejected) \<longrightarrow>
           decide_spec assign caller' i d' comment' ms0 = Inl E_InvalidStateTransition)"
proof -
  let ?ms' = "map (\<lambda>m. if ms_id m = i then decided assign Approve m else m) ms"
  have step: "decide_spec assign caller i Approve comment ms = Inr ?ms'"
    using assms by (simp add: decide_spec_def)
  have found: "find (\<lambda>m. ms_id m = i) ?ms' = Some (decided assign Approve m)"
    using assms(2) by (simp add: find_map_same_id decided_id)
  have st: "ms_status (decided assign Approve m) = Approved"
    by (simp add: decided_def)
  then have "ms_status (decided assign Approve m) \<noteq> Pending"
    by simp
  from decide_spec_terminal [OF found this]
  have again: "\<forall>caller' d' comment'. \<exists>e.
              decide_spec assign caller' i d' comment' ?ms' = Inl e \<and>
              (admin_role caller' \<longrightarrow> e = E_InvalidStateTransition)"
    by blast
  from step found st again
  have first: "\<exists>ms'. decide_spec assign caller i Approve comment ms = Inr ms' \<and>
           map_option ms_status (find (\<lambda>m. ms_id m = i) ms') = Some Approved \<and>
           (\<forall>caller' d' comment'. \<exists>e.
              decide_spec assign caller' i d' comment' ms' = Inl e \<and>
              (admin_role caller' \<longrightarrow> e = E_InvalidStateTransition))"
    by (intro exI [of _ ?ms']) simp
  have terminal: "\<forall>ms0 m0 caller' d' comment'.
           admin_role caller' \<and> find (\<lambda>m. ms_id m = i) ms0 = Some m0 \<and>
           (ms_status m0 = Approved \<or> ms_status m0 = Rejected) \<longrightarrow>
           decide_spec assign caller' i d' comment' ms0 = Inl E_InvalidStateTransition"
    by (auto simp: decide_spec_def)
  from first terminal show ?thesis
    by blast
qed

theorem decide_exactly_once_witness:
  "admin_role (Some ana) \<and>
   find (\<lambda>m. ms_id m = 0) (run (\<lambda>f. True) (\<lambda>i. ''10.1234/rnce.1'') [Submit sample_submission]) =
     Some \<lparr>ms_id = 0, ms_fields = sample_submission, ms_status = Pending, ms_doi = None\<rparr> \<and>
   (\<exists>ms'. decide_spec (\<lambda>i. ''10.1234/rnce.1'') (Some ana) 0 Approve ''ok''
            (run (\<lambda>f. True) (\<lambda>i. ''10.1234/rnce.1'') [Submit sample_submission]) = Inr ms' \<and>
          map_option ms_status (find (\<lambda>m. ms_id m = 0) ms') = Some Approved \<and>
          decide_spec (\<lambda>i. ''10.1234/rnce.1'') (Some ana) 0 Reject ''no'' ms' =
            Inl E_InvalidStateTransition)"
proof -
  let ?ms = "run (\<lambda>f. True) (\<lambda>i. ''10.1234/rnce.1'') [Submit sample_submission]"
  let ?m = "\<lparr>ms_id = 0, ms_fields = sample_submission, ms_status = Pending, ms_doi = None\<rparr>"
  have ms: "?ms = [?m]"
    by (simp add: run_def submit_spec_def fields_present_def sample_submission_def)
  have adm: "admin_role (Some ana)"
    by (simp add: admin_role_def opt_role_def property_def ana_def)
  have f: "find (\<lambda>m. ms_id m = 0) ?ms = Some ?m"
    by (simp add: ms)
  have p: "ms_status ?m = Pending"
    by simp
  from decide_exactly_once [OF adm f p, of "\<lambda>i. ''10.1234/rnce.1''" "''ok''"] adm
  have "\<exists>ms'. decide_spec (\<lambda>i. ''10.1234/rnce.1'') (Some ana) 0 Approve ''ok'' ?ms = Inr ms' \<and>
          map_option ms_status (find (\<lambda>m. ms_id m = 0) ms') = Some Approved \<and>
          decide_spec (\<lambda>i. ''10.1234/rnce.1'') (Some ana) 0 Reject ''no'' ms' =
            Inl E_InvalidStateTransition"
    by metis
  with adm f show ?thesis
    by blast
qed

lemma find_unique:
  "distinct (map f xs) \<Longrightarrow> find (\<lambda>x. f x = i) xs = Some a \<Longrightarrow> x \<in> set xs \<Longrightarrow> f x = i \<Longrightarrow> x = a"
  by (induction xs) (auto split: if_splits)

lemma find_snoc:
  "find P (xs @ [y]) = (case find P xs of None \<Rightarrow> (if P y then Some y else None) | Some x \<Rightarrow> Some x)"
  by (induction xs) auto

lemma decided_pending_ok:
  "doi_iff_approved m \<Longrightarrow> ms_status m = Pending \<Longrightarrow> doi_iff_approved (decided assign d m)"
  by (cases d) (simp_all add: decided_def doi_iff_approved_def)

lemma submit_spec_ok:
  assumes "store_ok ms" and "submit_spec accepted s ms = Inr (i, ms')"
  shows "store_ok ms'"
proof -
  let ?new = "\<lparr>ms_id = length ms, ms_fields = s, ms_status = Pending, ms_doi = None\<rparr>"
  from assms(2) have ms': "ms' = ms @ [?new]"
    by (auto simp: submit_spec_def split: if_splits)
  from assms(1) have ids: "map ms_id ms = [0..<length ms]"
    and inv: "\<forall>m\<in>set ms. doi_iff_approved m"
    by (simp_all add: store_ok_def)
  have "map ms_id ms' = [0..<length ms] @ [length ms]"
    unfolding ms' using ids by simp
  then have ids': "map ms_id ms' = [0..<length ms']"
    unfolding ms' by simp
  have "doi_iff_approved ?new"
    by (simp add: doi_iff_approved_def)
  with inv have "\<forall>m\<in>set ms'. doi_iff_approved m"
    unfolding ms' by simp
  with ids' show ?thesis
    unfolding store_ok_def by blast
qed

lemma ball_map: "\<forall>x\<in>set xs. P (f x) \<Longrightarrow> \<forall>y\<in>set (map f xs). P y"
  by simp

lemma decide_spec_ok:
  assumes "store_ok ms" and "decide_spec assign caller i d comment ms = Inr ms'"
  shows "store_ok ms'"
proof -
  let ?f = "\<lambda>m. if ms_id m = i then decided assign d m else m"
  from assms(2) have adm: "admin_role caller"
    by (simp add: decide_spec_def split: if_splits)
  from assms(2) adm obtain m where m: "find (\<lambda>m. ms_id m = i) ms = Some m"
    by (cases "find (\<lambda>m. ms_id m = i) ms") (simp_all add: decide_spec_def)
  from assms(2) adm m have pend: "ms_status m = Pending"
    by (simp add: decide_spec_def split: if_splits)
  from assms(2) adm m pend have ms': "ms' = map ?f ms"
    by (simp add: decide_spec_def)
  from assms(1) have ids: "map ms_id ms = [0..<length ms]"
    and inv: "\<forall>m\<in>set ms. doi_iff_approved m"
    by (simp_all add: store_ok_def)
  from ids have dist: "distinct (map ms_id ms)"
    by simp
  have "ms_id (?f x) = ms_id x" for x
    by (simp add: decided_id)
  then have "map ms_id (map ?f ms) = map ms_id ms"
    by (simp add: comp_def)
  with ids have ids': "map ms_id ms' = [0..<length ms']"
    by (simp add: ms')
  have each: "\<forall>x\<in>set ms. doi_iff_approved (?f x)"
  proof
    fix x
    assume x: "x \<in> set ms"
    show "doi_iff_approved (?f x)"
    proof (cases "ms_id x = i")
      case True
      from find_unique [OF dist m x True] have "x = m" .
      with pend inv x have "doi_iff_approved (decided assign d x)"
        by (simp add: decided_pending_ok)
      with True show ?thesis by simp
    next
      case False
      with inv x show ?thesis by simp
    qed
  qed
  then have "\<forall>y\<in>set (map ?f ms). doi_iff_approved y"
    by (rule ball_map)
  then have "\<forall>m\<in>set ms'. doi_iff_approved m"
    by (simp only: ms')
  with ids' show ?thesis
    unfolding store_ok_def by blast
qed

lemma apply_operation_ok:
  assumes "store_ok ms"
  shows "store_ok (apply_operation accepted assign ms op)"
proof (cases op)
  case (Submit s)
  show ?thesis
  proof (cases "submit_spec accepted s ms")
    case (Inl e)
    with Submit assms show ?thesis by simp
  next
    case (Inr r)
    obtain i ms' where r: "r = (i, ms')"
      by (cases r)
    from submit_spec_ok [OF assms] Inr r have "store_ok ms'"
      by blast
    with Submit Inr r show ?thesis by simp
  qed
next
  case (Decide caller i d comment)
  show ?thesis
  proof (cases "decide_spec assign caller i d comment ms")
    case (Inl e)
    with Decide assms show ?thesis by simp
  next
    case (Inr ms')
    from decide_spec_ok [OF assms Inr] Decide Inr show ?thesis
      by simp
  qed
qed

lemma run_ok: "store_ok (run accepted assign ops)"
proof (induction ops rule: rev_induct)
  case Nil
  show ?case by (simp add: run_def store_ok_def)
next
  case (snoc op ops)
  then show ?case
    by (simp add: run_def apply_operation_ok)
qed

text \<open>C1: in every store the collaborator can reach, a manuscript is approved exactly when it
  has a doi; and a successful submission yields the store with one more manuscript, found
  under the returned id, pending and without a doi.\<close>

theorem doi_present_iff_approved:
  "(\<forall>m\<in>set (run accepted assign ops). (ms_status m = Approved) = (ms_doi m \<noteq> None)) \<and>
   (submit_spec accepted s (run accepted assign ops) = Inr (i, ms') \<longrightarrow>
      find (\<lambda>m. ms_id m = i) ms' =
        Some \<lparr>ms_id = i, ms_fields = s, ms_status = Pending, ms_doi = None\<rparr> \<and>
      ms' = run accepted assign (ops @ [Submit s]))"
proof -
  let ?ms = "run accepted assign ops"
  have ok: "store_ok ?ms"
    by (rule run_ok)
  then have a: "\<forall>m\<in>set ?ms. (ms_status m = Approved) = (ms_doi m \<noteq> None)"
    by (simp add: store_ok_def doi_iff_approved_def)
  have b: "find (\<lambda>m. ms_id m = i) ms' =
        Some \<lparr>ms_id = i, ms_fields = s, ms_status = Pending, ms_doi = None\<rparr> \<and>
      ms' = run accepted assign (ops @ [Submit s])"
    if h: "submit_spec accepted s ?ms = Inr (i, ms')"
  proof -
    from h have i: "i = length ?ms"
      and ms': "ms' = ?ms @ [\<lparr>ms_id = i, ms_fields = s, ms_status = Pending, ms_doi = None\<rparr>]"
      by (auto simp: submit_spec_def split: if_splits)
    from ok have "map ms_id ?ms = [0..<length ?ms]"
      by (simp add: store_ok_def)
    then have "set (map ms_id ?ms) = {0..<length ?ms}"
      by (simp only: set_upt)
    then have "\<forall>m\<in>set ?ms. ms_id m < length ?ms"
      by fastforce
    then have "\<forall>m\<in>set ?ms. ms_id m \<noteq> i"
      using i by auto
    then have "find (\<lambda>m. ms_id m = i) ?ms = None"
      by (simp add: find_None_iff)
    then have f: "find (\<lambda>m. ms_id m = i) ms' =
        Some \<lparr>ms_id = i, ms_fields = s, ms_status = Pending, ms_doi = None\<rparr>"
      by (simp add: ms' find_snoc)
    from h have "ms' = run accepted assign (ops @ [Submit s])"
      by (simp add: run_def)
    with f show ?thesis by simp
  qed
  from a b show ?thesis
    by blast
qed

theorem doi_present_iff_approved_witness:
  "\<lparr>ms_id = 0, ms_fields = sample_submission, ms_status = Approved,
     ms_doi = Some ''10.1234/rnce.1''\<rparr>
     \<in> set (run (\<lambda>f. True) (\<lambda>i. ''10.1234/rnce.1'')
         [Submit sample_submission, Decide (Some ana) 0 Approve ''ok'', Submit sample_submission]) \<and>
   \<lparr>ms_id = 1, ms_fields = sample_submission, ms_status = Pending, ms_doi = None\<rparr>
     \<in> set (run (\<lambda>f. True) (\<lambda>i. ''10.1234/rnce.1'')
         [Submit sample_submission, Decide (Some ana) 0 Approve ''ok'', Submit sample_submission]) \<and>
   (ms_status \<lparr>ms_id = 0, ms_fields = sample_submission, ms_status = Approved,
       ms_doi = Some ''10.1234/rnce.1''\<rparr> = Approved) =
     (ms_doi \<lparr>ms_id = 0, ms_fields = sample_submission, ms_status = Approved,
       ms_doi = Some ''10.1234/rnce.1''\<rparr> \<noteq> None) \<and>
   (ms_status \<lparr>ms_id = 1, ms_fields = sample_submission, ms_status = Pending,
       ms_doi = None\<rparr> = Approved) =
     (ms_doi \<lparr>ms_id = 1, ms_fields = sample_submission, ms_status = Pending,
       ms_doi = None\<rparr> \<noteq> None) \<and>
   submit_spec (\<lambda>f. True) sample_submission
     (run (\<lambda>f. True) (\<lambda>i. ''10.1234/rnce.1'')
        [Submit sample_submission, Decide (Some ana) 0 Approve ''ok'']) =
     Inr (1, [\<lparr>ms_id = 0, ms_fields = sample_submission, ms_status = Approved,
               ms_doi = Some ''10.1234/rnce.1''\<rparr>,
              \<lparr>ms_id = 1, ms_fields = sample_submission, ms_status = Pending, ms_doi = None\<rparr>]) \<and>
   find (\<lambda>m. ms_id m = 1)
     (run (\<lambda>f. True) (\<lambda>i. ''10.1234/rnce.1'')
        [Submit sample_submission, Decide (Some ana) 0 Approve ''ok'', Submit sample_submission]) =
     Some \<lparr>ms_id = 1, ms_fields = sample_submission, ms_status = Pending, ms_doi = None\<rparr>"
proof -
  let ?acc = "\<lambda>f::string. True"
  let ?doi = "\<lambda>i::nat. ''10.1234/rnce.1''"
  let ?ops = "[Submit sample_submission, Decide (Some ana) 0 Approve ''ok'']"
  let ?ops3 = "[Submit sample_submission, Decide (Some ana) 0 Approve ''ok'',
      Submit sample_submission]"
  let ?m0 = "\<lparr>ms_id = 0, ms_fields = sample_submission, ms_status = Approved,
       ms_doi = Some ''10.1234/rnce.1''\<rparr>"
  let ?m1 = "\<lparr>ms_id = 1, ms_fields = sample_submission, ms_status = Pending, ms_doi = None\<rparr>"
  have adm: "admin_role (Some ana)"
    by (simp add: admin_role_def opt_role_def property_def ana_def)
  have valid: "fields_present sample_submission" "sub_word_count sample_submission = 3000"
    by (simp_all add: fields_present_def sample_submission_def)
  have r: "run ?acc ?doi ?ops = [?m0]"
    by (simp add: run_def submit_spec_def decide_spec_def decided_def adm valid)
  have s: "submit_spec ?acc sample_submission (run ?acc ?doi ?ops) = Inr (1, [?m0, ?m1])"
    by (simp add: r submit_spec_def valid)
  note t = doi_present_iff_approved [where accepted = ?acc and assign = ?doi
      and s = sample_submission]
  from t [where ops = ?ops and i = 1 and ms' = "[?m0, ?m1]"] s
  have fresh: "find (\<lambda>m. ms_id m = 1) [?m0, ?m1] = Some ?m1"
    and r': "[?m0, ?m1] = run ?acc ?doi (?ops @ [Submit sample_submission])"
    by blast+
  from r' have e: "run ?acc ?doi ?ops3 = [?m0, ?m1]"
    by simp
  from t [where ops = ?ops3]
  have inv: "\<forall>m\<in>set (run ?acc ?doi ?ops3). (ms_status m = Approved) = (ms_doi m \<noteq> None)"
    by blast
  have in0: "?m0 \<in> set (run ?acc ?doi ?ops3)" and in1: "?m1 \<in> set (run ?acc ?doi ?ops3)"
    by (simp_all only: e list.set_intros)
  from fresh have fresh': "find (\<lambda>m. ms_id m = 1) (run ?acc ?doi ?ops3) = Some ?m1"
    by (simp only: e)
  from inv in0 have ok0: "(ms_status ?m0 = Approved) = (ms_doi ?m0 \<noteq> None)"
    by (rule bspec)
  from inv in1 have ok1: "(ms_status ?m1 = Approved) = (ms_doi ?m1 \<noteq> None)"
    by (rule bspec)
  from in0 in1 ok0 ok1 s fresh' show ?thesis
    by (intro conjI)
qed

end
